theory Spec2Isabelle
  imports Complex_Main "HOL-Library.Sublist" "HOL-Library.Log_Nat"
begin

section \<open>The durable store\<close>

text \<open>
  The backend keeps its data in a relational store reached through Prisma. The tables the
  membership, reputation and messaging code touches are modelled as they are used there:
  rows keyed by their id are finite maps, tables that are searched or listed are lists in
  insertion order. Ids are the strings the JavaScript passes around. Timestamps
  (\<open>createdAt\<close>, \<open>joinedAt\<close>) are set by the store and read by none of the modelled
  functions, so they are left out.
\<close>

record user =
  name :: string
  reputationScore :: int
  activeProjectCount :: int

record project =
  title :: string
  description :: string
  domain :: string
  createdBy :: string
  status :: string
  deadline :: "string option"

record projectMember =
  pm_projectId :: string
  pm_userId :: string
  pm_role :: string

record reputationLog =
  log_userId :: string
  log_projectId :: string
  log_change :: int
  log_reason :: string

record message =
  msg_id :: string
  msg_senderId :: string
  msg_receiverId :: string
  msg_content :: string
  msg_isRead :: bool

record notification =
  ntf_userId :: string
  ntf_type :: string
  ntf_title :: string
  ntf_message :: string
  ntf_isRead :: bool

record db =
  users :: "string \<rightharpoonup> user"
  projects :: "string \<rightharpoonup> project"
  projectMembers :: "projectMember list"
  reputationLogs :: "reputationLog list"
  messages :: "message list"
  notifications :: "notification list"

text \<open>
  A write can be rejected by the store (an outage, a constraint violation); Prisma then
  throws. Which writes are rejected is a parameter \<open>fails\<close> of every function that
  writes, a predicate on the write attempted. Reads are taken to succeed.
\<close>

datatype dbwrite =
    UserUpdate string
  | ProjectCreate
  | ProjectUpdate string
  | ProjectMemberCreate
  | ReputationLogCreate
  | MessageCreate
  | MessageUpdate string
  | NotificationCreate

text \<open>
  What a JavaScript function throws: \<open>Error msg\<close> is \<open>new Error(msg)\<close>,
  \<open>PrismaError code\<close> is an error raised by the Prisma client (\<open>P2025\<close>: the row
  to update does not exist; \<open>P1001\<close> stands for any write the store rejected).
\<close>

datatype exn = Error string | PrismaError string

definition storeRejected :: exn where
  "storeRejected = PrismaError ''P1001''"

definition recordNotFound :: exn where
  "recordNotFound = PrismaError ''P2025''"

text \<open>\<open>prisma.user.update\<close> with \<open>where: { id }\<close>: the row must exist.\<close>

definition user_update :: "(dbwrite \<Rightarrow> bool) \<Rightarrow> string \<Rightarrow> (user \<Rightarrow> user) \<Rightarrow> db \<Rightarrow> exn + (user \<times> db)" where
  "user_update fails uid f s =
     (if fails (UserUpdate uid) then Inl storeRejected
      else case users s uid of
             None \<Rightarrow> Inl recordNotFound
           | Some u \<Rightarrow> Inr (f u, s\<lparr>users := (users s)(uid \<mapsto> f u)\<rparr>))"

section \<open>Reputation ledger (services/reputation.service.js)\<close>

text \<open>
  The rating is a JavaScript number; it is modelled as a rational, so that the
  \<open>Number.isInteger\<close> guard has something to reject.
\<close>

definition isInteger :: "rat \<Rightarrow> bool" where
  "isInteger r = (of_int \<lfloor>r\<rfloor> = r)"

text \<open>Template-literal rendering of an integer rating that passed the guard (one digit).\<close>

definition showRating :: "rat \<Rightarrow> string" where
  "showRating r =
     (if r = 1 then ''1'' else if r = 2 then ''2'' else if r = 3 then ''3''
      else if r = 4 then ''4'' else ''5'')"

definition ratingPrefix :: "string \<Rightarrow> string" where
  "ratingPrefix raterId = ''Rating from user '' @ raterId"

definition ratingReason :: "string \<Rightarrow> rat \<Rightarrow> string" where
  "ratingReason raterId rating = ''Rating from user '' @ raterId @ '': '' @ showRating rating @ ''/5''"

text \<open>
  The duplicate check: \<open>prisma.reputationLog.findFirst\<close> with \<open>userId\<close>, \<open>projectId\<close> and
  \<open>reason: { startsWith: `Rating from user ${raterId}` }\<close>. The prefix is compared
  character by character; pattern characters of the store's \<open>LIKE\<close> inside an id are
  not modelled.
\<close>

definition existingRating :: "db \<Rightarrow> string \<Rightarrow> string \<Rightarrow> string \<Rightarrow> reputationLog option" where
  "existingRating s raterId ratedUserId projectId =
     find (\<lambda>l. log_userId l = ratedUserId \<and> log_projectId l = projectId
               \<and> prefix (ratingPrefix raterId) (log_reason l))
          (reputationLogs s)"

definition adjustmentOf :: "rat \<Rightarrow> int" where
  "adjustmentOf rating =
     (if rating < 2 then -15
      else if rating \<le> 3 then -5
      else if rating \<le> 4 then 5
      else 10)"

record ratingResult =
  rr_message :: string
  rr_adjustment :: int
  rr_newReputation :: int

definition ValidationError :: exn where
  "ValidationError = Error ''Rating must be an integer between 1 and 5''"

definition Conflict :: exn where
  "Conflict = Error ''You have already rated this teammate for this project''"

definition rateTeammate ::
  "(dbwrite \<Rightarrow> bool) \<Rightarrow> db \<Rightarrow> string \<Rightarrow> string \<Rightarrow> string \<Rightarrow> rat \<Rightarrow> (exn + ratingResult) \<times> db" where
  "rateTeammate fails s raterId ratedUserId projectId rating =
     (if rating < 1 \<or> rating > 5 \<or> \<not> isInteger rating then (Inl ValidationError, s)
      else if existingRating s raterId ratedUserId projectId \<noteq> None then (Inl Conflict, s)
      else
        let adjustment = adjustmentOf rating in
        case user_update fails ratedUserId
               (\<lambda>u. u\<lparr>reputationScore := reputationScore u + adjustment\<rparr>) s of
          Inl e \<Rightarrow> (Inl e, s)
        | Inr (updatedUser, s1) \<Rightarrow>
            (case (if reputationScore updatedUser < 0
                   then map_sum id snd (user_update fails ratedUserId (\<lambda>u. u\<lparr>reputationScore := 0\<rparr>) s1)
                   else Inr s1) of
               Inl e \<Rightarrow> (Inl e, s1)
             | Inr s2 \<Rightarrow>
                 if fails ReputationLogCreate then (Inl storeRejected, s2)
                 else
                   (Inr \<lparr>rr_message = ''Rating recorded successfully'',
                         rr_adjustment = adjustment,
                         rr_newReputation = max 0 (reputationScore updatedUser + adjustment)\<rparr>,
                    s2\<lparr>reputationLogs := reputationLogs s2 @
                          [\<lparr>log_userId = ratedUserId, log_projectId = projectId,
                            log_change = adjustment,
                            log_reason = ratingReason raterId rating\<rparr>]\<rparr>)))"

section \<open>Membership state machine (controllers/project.controller.js)\<close>

text \<open>
  An Express handler answers with a status code and a JSON body. \<open>Err n msg\<close> is
  \<open>res.status(n).json({ error: msg })\<close>, \<open>Msg n msg\<close> is a success body with
  \<open>message: msg\<close> (further fields of the body are not modelled).
\<close>

datatype response = Err nat string | Msg nat string

definition CapacityExceeded :: response where
  "CapacityExceeded = Err 400 ''You have reached the maximum limit of 2 active projects''"

definition InternalServerError :: response where
  "InternalServerError = Err 500 ''Internal server error''"

text \<open>
  A body field is absent or a string; JavaScript's \<open>!x\<close> holds for an absent field and
  for the empty string.
\<close>

definition falsy :: "string option \<Rightarrow> bool" where
  "falsy x = (case x of None \<Rightarrow> True | Some v \<Rightarrow> v = [])"

text \<open>\<open>String.prototype.trim\<close>, on the ASCII white space characters.\<close>

definition isSpace :: "char \<Rightarrow> bool" where
  "isSpace c = (c = CHR '' '' \<or> c = CHR 0x09 \<or> c = CHR 0x0A \<or> c = CHR 0x0B \<or> c = CHR 0x0C \<or> c = CHR 0x0D)"

definition trim :: "string \<Rightarrow> string" where
  "trim s = rev (dropWhile isSpace (rev (dropWhile isSpace s)))"

record createBody =
  cb_title :: "string option"
  cb_description :: "string option"
  cb_domain :: "string option"
  cb_deadline :: "string option"

text \<open>
  \<open>createProject\<close>: \<open>userId\<close> is \<open>req.user.userId\<close>, \<open>newId\<close> the id the store gives
  the new project. A missing user row makes \<open>currentUser.activeProjectCount\<close> throw, which
  the handler's \<open>catch\<close> turns into the 500 answer, as it does every rejected write.
  The deadline is kept as the string of the body (the source parses it with \<open>new Date\<close>).
\<close>

definition createProject ::
  "(dbwrite \<Rightarrow> bool) \<Rightarrow> string \<Rightarrow> db \<Rightarrow> string \<Rightarrow> createBody \<Rightarrow> response \<times> db" where
  "createProject fails newId s userId body =
     (if falsy (cb_title body) \<or> falsy (cb_description body) \<or> falsy (cb_domain body)
      then (Err 400 ''Title, description and domain are required'', s)
      else case users s userId of
        None \<Rightarrow> (InternalServerError, s)
      | Some currentUser \<Rightarrow>
          if activeProjectCount currentUser \<ge> 2 then (CapacityExceeded, s)
          else if fails ProjectCreate \<or> projects s newId \<noteq> None then (InternalServerError, s)
          else
            let s1 = s\<lparr>projects := (projects s)(newId \<mapsto>
                         \<lparr>title = trim (the (cb_title body)),
                          description = trim (the (cb_description body)),
                          domain = trim (the (cb_domain body)),
                          createdBy = userId,
                          status = ''active'',
                          deadline = (if falsy (cb_deadline body) then None else cb_deadline body)\<rparr>)\<rparr>
            in if fails ProjectMemberCreate then (InternalServerError, s1)
               else
                 let s2 = s1\<lparr>projectMembers := projectMembers s1 @
                               [\<lparr>pm_projectId = newId, pm_userId = userId, pm_role = ''leader''\<rparr>]\<rparr>
                 in (case user_update fails userId
                            (\<lambda>u. u\<lparr>activeProjectCount := activeProjectCount u + 1\<rparr>) s2 of
                       Inl e \<Rightarrow> (InternalServerError, s2)
                     | Inr (u', s3) \<Rightarrow> (Msg 201 ''Project created successfully'', s3)))"

text \<open>\<open>prisma.projectMember.findUnique\<close> on the compound key \<open>projectId_userId\<close>.\<close>

definition existingMember :: "db \<Rightarrow> string \<Rightarrow> string \<Rightarrow> projectMember option" where
  "existingMember s projectId userId =
     find (\<lambda>m. pm_projectId m = projectId \<and> pm_userId m = userId) (projectMembers s)"

definition joinProject ::
  "(dbwrite \<Rightarrow> bool) \<Rightarrow> db \<Rightarrow> string \<Rightarrow> string option \<Rightarrow> response \<times> db" where
  "joinProject fails s userId projectId =
     (if falsy projectId then (Err 400 ''projectId is required'', s)
      else case users s userId of
        None \<Rightarrow> (InternalServerError, s)
      | Some currentUser \<Rightarrow>
          if activeProjectCount currentUser \<ge> 2 then (CapacityExceeded, s)
          else if (case projects s (the projectId) of None \<Rightarrow> True | Some p \<Rightarrow> status p \<noteq> ''active'')
          then (Err 400 ''Project not found or not active'', s)
          else if existingMember s (the projectId) userId \<noteq> None
          then (Err 400 ''You are already a member of this project'', s)
          else if fails ProjectMemberCreate then (InternalServerError, s)
          else
            let s1 = s\<lparr>projectMembers := projectMembers s @
                          [\<lparr>pm_projectId = the projectId, pm_userId = userId, pm_role = ''member''\<rparr>]\<rparr>
            in (case user_update fails userId
                       (\<lambda>u. u\<lparr>activeProjectCount := activeProjectCount u + 1\<rparr>) s1 of
                  Inl e \<Rightarrow> (InternalServerError, s1)
                | Inr (u', s2) \<Rightarrow> (Msg 200 ''Successfully joined the project'', s2)))"

text \<open>
  \<open>prisma.$transaction([...])\<close> runs the queued writes in order inside one database
  transaction: the first one that throws aborts it and the store keeps the state it had
  before; otherwise the state after the last write is committed.
\<close>

type_synonym dbop = "db \<Rightarrow> exn + db"

fun runOps :: "dbop list \<Rightarrow> db \<Rightarrow> exn + db" where
  "runOps [] s = Inr s"
| "runOps (w # ws) s = (case w s of Inl e \<Rightarrow> Inl e | Inr s1 \<Rightarrow> runOps ws s1)"

definition transaction :: "dbop list \<Rightarrow> db \<Rightarrow> (exn + unit) \<times> db" where
  "transaction ws s = (case runOps ws s of Inl e \<Rightarrow> (Inl e, s) | Inr s1 \<Rightarrow> (Inr (), s1))"

definition project_update :: "(dbwrite \<Rightarrow> bool) \<Rightarrow> string \<Rightarrow> (project \<Rightarrow> project) \<Rightarrow> dbop" where
  "project_update fails pid f s =
     (if fails (ProjectUpdate pid) then Inl storeRejected
      else case projects s pid of
             None \<Rightarrow> Inl recordNotFound
           | Some p \<Rightarrow> Inr (s\<lparr>projects := (projects s)(pid \<mapsto> f p)\<rparr>))"

definition decrementActive :: "(dbwrite \<Rightarrow> bool) \<Rightarrow> string \<Rightarrow> dbop" where
  "decrementActive fails uid s =
     map_sum id snd (user_update fails uid (\<lambda>u. u\<lparr>activeProjectCount := activeProjectCount u - 1\<rparr>) s)"

text \<open>
  The success answer of \<open>completeProject\<close> (the source writes the apostrophe as a
  typographic one).
\<close>

definition completedMessage :: response where
  "completedMessage =
     Msg 200 ''Project marked as completed. All members' active project counts updated.''"

text \<open>\<open>include: { members: true }\<close>: the membership rows of the project.\<close>

definition membersOf :: "db \<Rightarrow> string \<Rightarrow> projectMember list" where
  "membersOf s pid = filter (\<lambda>m. pm_projectId m = pid) (projectMembers s)"

text \<open>
  \<open>completeProject\<close> reads the project with its members (\<open>findUnique\<close>, lines 305 to 310),
  checks it, builds one decrement per member it has read, and only then runs the
  transaction (lines 332 to 338). The read is not part of the transaction: requests served
  between the two see and change the store. \<open>s\<close> is the store at the read, \<open>between\<close> what
  the other requests do to it before the transaction runs; a call that runs alone has
  \<open>between = (\<lambda>s. s)\<close>.
\<close>

definition completeProject ::
  "(dbwrite \<Rightarrow> bool) \<Rightarrow> (db \<Rightarrow> db) \<Rightarrow> db \<Rightarrow> string \<Rightarrow> string option \<Rightarrow> response \<times> db" where
  "completeProject fails between s userId projectId =
     (if falsy projectId then (Err 400 ''projectId is required'', s)
      else case projects s (the projectId) of
        None \<Rightarrow> (Err 404 ''Project not found'', s)
      | Some p \<Rightarrow>
          if createdBy p \<noteq> userId
          then (Err 403 ''Only the project creator can mark it as completed'', s)
          else if status p = ''completed'' then (Err 400 ''Project is already completed'', s)
          else
            let memberUpdates = map (\<lambda>member. decrementActive fails (pm_userId member))
                                    (membersOf s (the projectId))
            in (case transaction
                       (project_update fails (the projectId) (\<lambda>q. q\<lparr>status := ''completed''\<rparr>)
                        # memberUpdates) (between s) of
                  (Inl e, s1) \<Rightarrow> (InternalServerError, s1)
                | (Inr u, s1) \<Rightarrow> (completedMessage, s1)))"

section \<open>Presence and delivery hub (socket/socket.js)\<close>

text \<open>
  The hub's state is the \<open>onlineUsers\<close> map (user id to socket id) and the connected
  sockets, each with the \<open>userId\<close> the \<open>authenticate\<close> handler stored on it and the
  rooms it joined. A handler's emissions are returned as a list, each with its target:
  \<open>socket.emit\<close>, \<open>io.to(room).emit\<close> or \<open>io.emit\<close>.
\<close>

record socket =
  sock_id :: string
  sock_userId :: "string option"
  sock_rooms :: "string list"

record hub =
  onlineUsers :: "string \<rightharpoonup> string"
  sockets :: "socket list"

datatype target = ToSocket string | ToRoom string | ToAll

datatype event =
    UserOnline string
  | UserOffline string
  | NewMessage message
  | MessageSent message
  | MessageRead string "string option"
  | ReadConfirmed string
  | NewNotification notification
  | ErrorEvent string

type_synonym emission = "target \<times> event"

definition userRoom :: "string \<Rightarrow> string" where
  "userRoom userId = ''user:'' @ userId"

definition findSocket :: "hub \<Rightarrow> string \<Rightarrow> socket option" where
  "findSocket h sid = find (\<lambda>k. sock_id k = sid) (sockets h)"

text \<open>The connections an emission reaches.\<close>

definition reached :: "hub \<Rightarrow> target \<Rightarrow> string list" where
  "reached h t =
     (case t of
        ToSocket sid \<Rightarrow> map sock_id (filter (\<lambda>k. sock_id k = sid) (sockets h))
      | ToRoom r \<Rightarrow> map sock_id (filter (\<lambda>k. r \<in> set (sock_rooms k)) (sockets h))
      | ToAll \<Rightarrow> map sock_id (sockets h))"

text \<open>\<open>io.on('connection', ...)\<close>: a new socket, not authenticated, in no room.\<close>

definition connection :: "hub \<Rightarrow> string \<Rightarrow> hub" where
  "connection h sid =
     h\<lparr>sockets := sockets h @ [\<lparr>sock_id = sid, sock_userId = None, sock_rooms = []\<rparr>]\<rparr>"

text \<open>
  The \<open>disconnect\<close> handler. Socket.IO has removed the closed socket (and with it its room
  memberships) when the handler runs.
\<close>

definition disconnect :: "hub \<Rightarrow> string \<Rightarrow> emission list \<times> hub" where
  "disconnect h sid =
     (case findSocket h sid of
        None \<Rightarrow> ([], h)
      | Some k \<Rightarrow>
          let h1 = h\<lparr>sockets := filter (\<lambda>k. sock_id k \<noteq> sid) (sockets h)\<rparr>
          in if \<not> falsy (sock_userId k)
             then ([(ToAll, UserOffline (the (sock_userId k)))],
                   h1\<lparr>onlineUsers := (onlineUsers h1)(the (sock_userId k) := None)\<rparr>)
             else ([], h1))"

text \<open>
  The \<open>authenticate\<close> handler. \<open>jwt_verify\<close> is the token verifier: \<open>None\<close> when
  \<open>jwt.verify\<close> throws, otherwise the \<open>userId\<close> field of the decoded payload (which may
  be absent). \<open>socket.disconnect(true)\<close> closes the connection, which runs the
  \<open>disconnect\<close> handler.
\<close>

definition authenticate ::
  "(string \<Rightarrow> string option option) \<Rightarrow> hub \<Rightarrow> string \<Rightarrow> string \<Rightarrow> emission list \<times> hub" where
  "authenticate jwt_verify h sid token =
     (case jwt_verify token of
        None \<Rightarrow> disconnect h sid
      | Some decodedUserId \<Rightarrow>
          if falsy decodedUserId then disconnect h sid
          else
            let userId = the decodedUserId in
            ([(ToAll, UserOnline userId)],
             h\<lparr>onlineUsers := (onlineUsers h)(userId \<mapsto> sid),
               sockets := map (\<lambda>k. if sock_id k = sid
                                    then k\<lparr>sock_userId := Some userId,
                                           sock_rooms := sock_rooms k @ [userRoom userId]\<rparr>
                                    else k) (sockets h)\<rparr>))"

text \<open>
  Live delivery to a user, as the \<open>sendMessage\<close>, \<open>markAsRead\<close> and typing handlers do it:
  \<open>const id = onlineUsers.get(userId); if (id) io.to(`user:${userId}`).emit(...)\<close>.
\<close>

definition deliver :: "hub \<Rightarrow> string \<Rightarrow> event \<Rightarrow> emission list" where
  "deliver h userId e =
     (if falsy (onlineUsers h userId) then [] else [(ToRoom (userRoom userId), e)])"

text \<open>
  \<open>createNotification\<close> of socket.js. The title is
  \<open>type.replace('_', ' ').toUpperCase()\<close>. The properties spread from \<open>metadata\<close> go to the
  store with the row; whether the store takes the row is \<open>fails NotificationCreate\<close>. The
  \<open>catch\<close> logs the error and throws it again.
\<close>

fun replaceFirst :: "char \<Rightarrow> char \<Rightarrow> string \<Rightarrow> string" where
  "replaceFirst a b [] = []"
| "replaceFirst a b (c # cs) = (if c = a then b # cs else c # replaceFirst a b cs)"

definition toUpperCase :: "string \<Rightarrow> string" where
  "toUpperCase cs =
     map (\<lambda>c. case map_of (zip ''abcdefghijklmnopqrstuvwxyz'' ''ABCDEFGHIJKLMNOPQRSTUVWXYZ'') c of
                None \<Rightarrow> c | Some C \<Rightarrow> C) cs"

definition createNotification ::
  "(dbwrite \<Rightarrow> bool) \<Rightarrow> db \<Rightarrow> string \<Rightarrow> string \<Rightarrow> string \<Rightarrow> (exn + notification) \<times> emission list \<times> db" where
  "createNotification fails s userId type msg =
     (if fails NotificationCreate then (Inl storeRejected, [], s)
      else
        let notification = \<lparr>ntf_userId = userId, ntf_type = type,
                            ntf_title = toUpperCase (replaceFirst CHR ''_'' CHR '' '' type),
                            ntf_message = msg, ntf_isRead = False\<rparr>
        in (Inr notification,
            [(ToRoom (userRoom userId), NewNotification notification)],
            s\<lparr>notifications := notifications s @ [notification]\<rparr>))"

text \<open>
  \<open>createNotification\<close> of controllers/notification.controller.js, the helper exported
  for the other controllers: its \<open>catch\<close> logs and returns \<open>null\<close>.
\<close>

definition createNotification_controller ::
  "(dbwrite \<Rightarrow> bool) \<Rightarrow> db \<Rightarrow> string \<Rightarrow> string \<Rightarrow> string \<Rightarrow> string \<Rightarrow> notification option \<times> db" where
  "createNotification_controller fails s userId type ttl msg =
     (if fails NotificationCreate then (None, s)
      else
        let notification = \<lparr>ntf_userId = userId, ntf_type = type, ntf_title = ttl,
                            ntf_message = msg, ntf_isRead = False\<rparr>
        in (Some notification, s\<lparr>notifications := notifications s @ [notification]\<rparr>))"

text \<open>
  The \<open>sendMessage\<close> handler of the socket \<open>sid\<close>; \<open>newId\<close> is the id the store gives the
  message. \<open>prisma.message.create\<close> includes the sender and receiver rows, so both must
  exist. Everything from the \<open>create\<close> on is inside one \<open>try\<close>, whose \<open>catch\<close> emits
  \<open>error\<close> to the socket.
\<close>

definition sendMessage ::
  "(dbwrite \<Rightarrow> bool) \<Rightarrow> string \<Rightarrow> hub \<Rightarrow> db \<Rightarrow> string \<Rightarrow> string \<Rightarrow> string \<Rightarrow> emission list \<times> db" where
  "sendMessage fails newId h s sid receiverId content =
     (let socket_userId = Option.bind (findSocket h sid) sock_userId in
      if falsy socket_userId \<or> receiverId = [] \<or> trim content = []
      then ([(ToSocket sid, ErrorEvent ''Invalid message data'')], s)
      else
        case (users s (the socket_userId), users s receiverId) of
          (Some sender, Some receiver) \<Rightarrow>
            if fails MessageCreate
            then ([(ToSocket sid, ErrorEvent ''Failed to send message'')], s)
            else
              let message = \<lparr>msg_id = newId, msg_senderId = the socket_userId,
                             msg_receiverId = receiverId, msg_content = trim content,
                             msg_isRead = False\<rparr>;
                  s1 = s\<lparr>messages := messages s @ [message]\<rparr>;
                  out = deliver h receiverId (NewMessage message)
                        @ [(ToSocket sid, MessageSent message)]
              in (case createNotification fails s1 receiverId ''message_received''
                         (''New message from '' @ name sender) of
                    (Inl e, out2, s2) \<Rightarrow>
                      (out @ out2 @ [(ToSocket sid, ErrorEvent ''Failed to send message'')], s2)
                  | (Inr n, out2, s2) \<Rightarrow> (out @ out2, s2))
        | _ \<Rightarrow> ([(ToSocket sid, ErrorEvent ''Failed to send message'')], s))"

text \<open>
  The \<open>markAsRead\<close> handler of the socket \<open>sid\<close>: \<open>prisma.message.update\<close> with
  \<open>where: { id: messageId }\<close> and \<open>data: { isRead: true }\<close>, a read receipt to the sender
  if online, \<open>readConfirmed\<close> to the socket; the \<open>catch\<close> emits \<open>error\<close>.
\<close>

definition markAsRead ::
  "(dbwrite \<Rightarrow> bool) \<Rightarrow> hub \<Rightarrow> db \<Rightarrow> string \<Rightarrow> string \<Rightarrow> emission list \<times> db" where
  "markAsRead fails h s sid messageId =
     (case (if fails (MessageUpdate messageId) then None
            else find (\<lambda>m. msg_id m = messageId) (messages s)) of
        None \<Rightarrow> ([(ToSocket sid, ErrorEvent ''Failed to update read status'')], s)
      | Some found \<Rightarrow>
          let updated = found\<lparr>msg_isRead := True\<rparr> in
          (deliver h (msg_senderId updated)
             (MessageRead messageId (Option.bind (findSocket h sid) sock_userId))
           @ [(ToSocket sid, ReadConfirmed messageId)],
           s\<lparr>messages := map (\<lambda>m. if msg_id m = messageId then m\<lparr>msg_isRead := True\<rparr> else m)
                              (messages s)\<rparr>))"

section \<open>Ranking engine (services/matching.service.js, controllers/user.controller.js)\<close>

text \<open>
  A JavaScript \<open>Set\<close> built from an array keeps the first occurrence of each element, in
  order; it is modelled by the list of its elements.
\<close>

fun newSet :: "'a list \<Rightarrow> 'a list" where
  "newSet [] = []"
| "newSet (x # xs) = x # filter (\<lambda>y. y \<noteq> x) (newSet xs)"

definition has :: "'a list \<Rightarrow> 'a \<Rightarrow> bool" where
  "has xs x = (x \<in> set xs)"

text \<open>
  JavaScript numbers are IEEE 754 doubles. A double is modelled by the rational number it
  stands for, and an arithmetic operation returns its exact result rounded to the nearest
  double, a tie to the double with the even significand: \<open>toDouble\<close>. The significand
  has 53 bits, so the doubles next to \<open>x\<close> are the multiples of \<open>2 powi (exponent x - 52)\<close>,
  where \<open>exponent x\<close> is the \<open>e\<close> with \<open>2 powi e \<le> x < 2 powi (e + 1)\<close>, computed from the
  bit lengths of numerator and denominator. The range of the exponent (overflow, subnormal
  numbers) is not modelled: the numbers computed here lie between \<open>2 powi (- 33)\<close> and 101.
  The sizes of sets are integers below \<open>2 ^ 53\<close>, which are doubles.
\<close>

definition roundHalfEven :: "rat \<Rightarrow> int" where
  "roundHalfEven y =
     (let f = \<lfloor>y\<rfloor>; d = y - of_int f
      in if d < 1 / 2 then f else if 1 / 2 < d then f + 1 else if even f then f else f + 1)"

definition exponent :: "rat \<Rightarrow> int" where
  "exponent x =
     (let e0 = bitlen (fst (quotient_of x)) - bitlen (snd (quotient_of x))
      in if x < 2 powi e0 then e0 - 1 else e0)"

definition toDouble :: "rat \<Rightarrow> rat" where
  "toDouble x =
     (if x = 0 then 0
      else let ulp = 2 powi (exponent \<bar>x\<bar> - 52)
           in ulp * of_int (roundHalfEven (x / ulp)))"

text \<open>
  \<open>Math.round\<close> returns the integer nearest to its argument, a tie upwards; it is exact on
  every double.
\<close>

definition Math_round :: "rat \<Rightarrow> int" where
  "Math_round x = \<lfloor>x + 1 / 2\<rfloor>"

text \<open>
  \<open>calculateSkillMatchPercent\<close>: the division and the multiplication by 100 are two
  double operations, in this order.
\<close>

definition calculateSkillMatchPercent :: "'a list \<Rightarrow> 'a list \<Rightarrow> int" where
  "calculateSkillMatchPercent mySkillIds candidateSkillIds =
     (let intersection = length (filter (\<lambda>id. has candidateSkillIds id) mySkillIds);
          union = length mySkillIds + length candidateSkillIds - intersection
      in if union > 0
         then Math_round (toDouble (toDouble (of_nat intersection / of_nat union) * 100))
         else 0)"

text \<open>
  The scoring step of \<open>getRecommendedUsers\<close> in the controller computes the same
  expression inline from the two arrays of skill ids.
\<close>

definition skillMatchPercent :: "'a list \<Rightarrow> 'a list \<Rightarrow> int" where
  "skillMatchPercent mySkills userSkills =
     (let mySkillIds = newSet mySkills;
          userSkillIds = newSet userSkills;
          intersectionSkills = length (filter (\<lambda>id. has userSkillIds id) mySkillIds);
          unionSkills = length mySkillIds + length userSkillIds - intersectionSkills
      in if unionSkills > 0
         then Math_round (toDouble (toDouble (of_nat intersectionSkills / of_nat unionSkills) * 100))
         else 0)"

section \<open>Scenarios\<close>

text \<open>Concrete stores and runs, used to evaluate the functions above.\<close>

definition noFailure :: "dbwrite \<Rightarrow> bool" where
  "noFailure w = False"

definition logStoreDown :: "dbwrite \<Rightarrow> bool" where
  "logStoreDown w = (w = ReputationLogCreate)"

text \<open>
  A log row has no rater column: the rater of a rating is only in the reason text
  \<open>rateTeammate\<close> writes. The rows of the triple (rater, rated user, project) are those
  with that user, that project and one of the five reason texts of that rater.
\<close>

definition entriesOf :: "db \<Rightarrow> string \<Rightarrow> string \<Rightarrow> string \<Rightarrow> reputationLog list" where
  "entriesOf s raterId ratedUserId projectId =
     filter (\<lambda>l. log_userId l = ratedUserId \<and> log_projectId l = projectId
                 \<and> log_reason l \<in> set (map (ratingReason raterId) [1, 2, 3, 4, 5]))
            (reputationLogs s)"

definition ledger0 :: db where
  "ledger0 = \<lparr>users = [''u'' \<mapsto> \<lparr>name = ''Uma'', reputationScore = 10, activeProjectCount = 1\<rparr>],
              projects = Map.empty, projectMembers = [], reputationLogs = [],
              messages = [], notifications = []\<rparr>"

definition ledger1 :: db where
  "ledger1 = snd (rateTeammate noFailure ledger0 ''r1'' ''u'' ''p'' 1)"

definition ledger2 :: db where
  "ledger2 = snd (rateTeammate noFailure ledger1 ''r2'' ''u'' ''p'' 1)"

definition ledgerAb :: db where
  "ledgerAb = snd (rateTeammate noFailure ledger0 ''ab'' ''u'' ''p'' 4)"

text \<open>
  The project of the members A, B and C, each with one active project, and a fourth user D
  who is in no project.
\<close>

definition team0 :: db where
  "team0 = \<lparr>users = [''A'' \<mapsto> \<lparr>name = ''Ann'', reputationScore = 80, activeProjectCount = 1\<rparr>,
                      ''B'' \<mapsto> \<lparr>name = ''Bob'', reputationScore = 75, activeProjectCount = 1\<rparr>,
                      ''C'' \<mapsto> \<lparr>name = ''Cy'', reputationScore = 90, activeProjectCount = 1\<rparr>,
                      ''D'' \<mapsto> \<lparr>name = ''Dee'', reputationScore = 85, activeProjectCount = 0\<rparr>],
            projects = [''p1'' \<mapsto> \<lparr>title = ''Compiler'', description = ''A small compiler'',
                                   domain = ''systems'', createdBy = ''A'', status = ''active'',
                                   deadline = None\<rparr>],
            projectMembers = [\<lparr>pm_projectId = ''p1'', pm_userId = ''A'', pm_role = ''leader''\<rparr>,
                              \<lparr>pm_projectId = ''p1'', pm_userId = ''B'', pm_role = ''member''\<rparr>,
                              \<lparr>pm_projectId = ''p1'', pm_userId = ''C'', pm_role = ''member''\<rparr>],
            reputationLogs = [], messages = [], notifications = []\<rparr>"

text \<open>No other request: the transaction runs in the store that was read.\<close>

definition alone :: "db \<Rightarrow> db" where
  "alone s = s"

text \<open>The request of D to join the project \<open>p1\<close>, served in full.\<close>

definition joinOfD :: "db \<Rightarrow> db" where
  "joinOfD s = snd (joinProject noFailure s ''D'' (Some ''p1''))"

definition lastMemberUpdateFails :: "dbwrite \<Rightarrow> bool" where
  "lastMemberUpdateFails w = (w = UserUpdate ''C'')"

text \<open>What one decrement does to a user row.\<close>

definition decremented :: "user \<Rightarrow> user" where
  "decremented u = u\<lparr>activeProjectCount := activeProjectCount u - 1\<rparr>"

text \<open>A user at the cap of two active projects, and two request bodies.\<close>

definition capped0 :: db where
  "capped0 = \<lparr>users = [''u'' \<mapsto> \<lparr>name = ''Uma'', reputationScore = 80, activeProjectCount = 2\<rparr>,
                        ''v'' \<mapsto> \<lparr>name = ''Vic'', reputationScore = 70, activeProjectCount = 1\<rparr>],
              projects = [''p1'' \<mapsto> \<lparr>title = ''Compiler'', description = ''A small compiler'',
                                     domain = ''systems'', createdBy = ''v'', status = ''active'',
                                     deadline = None\<rparr>],
              projectMembers = [\<lparr>pm_projectId = ''p1'', pm_userId = ''v'', pm_role = ''leader''\<rparr>],
              reputationLogs = [], messages = [], notifications = []\<rparr>"

definition fullBody :: createBody where
  "fullBody = \<lparr>cb_title = Some ''Parser'', cb_description = Some ''A parser'',
               cb_domain = Some ''systems'', cb_deadline = None\<rparr>"

definition untitledBody :: createBody where
  "untitledBody = \<lparr>cb_title = Some [], cb_description = Some ''A parser'',
                   cb_domain = Some ''systems'', cb_deadline = None\<rparr>"

text \<open>
  A token verifier that knows one token, and the hub after user \<open>u\<close> has authenticated
  on connection \<open>c1\<close> (\<open>hub1\<close>), then on a new connection \<open>c2\<close> (\<open>hub2\<close>), and \<open>c1\<close>
  has then disconnected (\<open>hub3\<close>).
\<close>

definition tokens :: "string \<Rightarrow> string option option" where
  "tokens t = (if t = ''token-u'' then Some (Some ''u'') else None)"

definition emptyHub :: hub where
  "emptyHub = \<lparr>onlineUsers = Map.empty, sockets = []\<rparr>"

definition hub1 :: hub where
  "hub1 = snd (authenticate tokens (connection emptyHub ''c1'') ''c1'' ''token-u'')"

definition hub2 :: hub where
  "hub2 = snd (authenticate tokens (connection hub1 ''c2'') ''c2'' ''token-u'')"

definition hub3 :: hub where
  "hub3 = snd (disconnect hub2 ''c1'')"

text \<open>
  A store with one unread message from alice to bob, and a hub where alice and eve are
  connected and authenticated.
\<close>

definition chat0 :: db where
  "chat0 = \<lparr>users = [''alice'' \<mapsto> \<lparr>name = ''Alice'', reputationScore = 80, activeProjectCount = 0\<rparr>,
                      ''bob'' \<mapsto> \<lparr>name = ''Bob'', reputationScore = 75, activeProjectCount = 0\<rparr>,
                      ''eve'' \<mapsto> \<lparr>name = ''Eve'', reputationScore = 70, activeProjectCount = 0\<rparr>],
            projects = Map.empty, projectMembers = [], reputationLogs = [],
            messages = [\<lparr>msg_id = ''m1'', msg_senderId = ''alice'', msg_receiverId = ''bob'',
                         msg_content = ''hi'', msg_isRead = False\<rparr>],
            notifications = []\<rparr>"

definition chatHub :: hub where
  "chatHub = \<lparr>onlineUsers = [''alice'' \<mapsto> ''a1'', ''eve'' \<mapsto> ''e1''],
              sockets = [\<lparr>sock_id = ''a1'', sock_userId = Some ''alice'', sock_rooms = [''user:alice'']\<rparr>,
                         \<lparr>sock_id = ''e1'', sock_userId = Some ''eve'', sock_rooms = [''user:eve'']\<rparr>]\<rparr>"

definition notificationStoreDown :: "dbwrite \<Rightarrow> bool" where
  "notificationStoreDown w = (w = NotificationCreate)"

section \<open>Properties of the reputation ledger\<close>

lemmas rate_defs = rateTeammate_def user_update_def existingRating_def isInteger_def
  adjustmentOf_def ratingReason_def ratingPrefix_def showRating_def noFailure_def
  ValidationError_def Conflict_def storeRejected_def recordNotFound_def

text \<open>An integer number between 1 and 5 is one of the five ratings.\<close>

lemma isInteger_cases:
  assumes "isInteger r" "1 \<le> r" "r \<le> 5"
  shows "r = 1 \<or> r = 2 \<or> r = 3 \<or> r = 4 \<or> r = 5"
proof -
  define n where "n = \<lfloor>r\<rfloor>"
  have r: "r = of_int n" using assms(1) unfolding isInteger_def n_def by (rule sym)
  have "1 \<le> n" "n \<le> 5" using assms(2,3) unfolding r by simp_all
  then have "n = 1 \<or> n = 2 \<or> n = 3 \<or> n = 4 \<or> n = 5" by arith
  then show ?thesis unfolding r by auto
qed

text \<open>
  What a call that returns normally has done: the rating was valid and no earlier row
  matched, the rated user's row exists and now holds the floored score, one row was
  appended to the log, and the returned \<open>newReputation\<close> is computed from the
  incremented score plus the adjustment.
\<close>

lemma rateTeammate_success:
  assumes "rateTeammate fails s raterId ratedUserId projectId rating = (Inr res, s')"
  shows "\<exists>usr. users s ratedUserId = Some usr
           \<and> \<not> (rating < 1 \<or> rating > 5 \<or> \<not> isInteger rating)
           \<and> existingRating s raterId ratedUserId projectId = None
           \<and> rr_adjustment res = adjustmentOf rating
           \<and> rr_newReputation res = max 0 (reputationScore usr + adjustmentOf rating + adjustmentOf rating)
           \<and> users s' = (users s)(ratedUserId \<mapsto> usr\<lparr>reputationScore := max 0 (reputationScore usr + adjustmentOf rating)\<rparr>)
           \<and> reputationLogs s' = reputationLogs s @
                 [\<lparr>log_userId = ratedUserId, log_projectId = projectId,
                   log_change = adjustmentOf rating, log_reason = ratingReason raterId rating\<rparr>]"
  using assms
  by (auto simp: rateTeammate_def user_update_def Let_def split: if_splits option.splits sum.splits)

lemma adjustmentOf_table:
  assumes "isInteger rating" "1 \<le> rating" "rating \<le> 5"
  shows "adjustmentOf rating =
           (if rating = 1 then -15 else if rating = 2 \<or> rating = 3 then -5
            else if rating = 4 then 5 else 10)"
  using isInteger_cases[OF assms] by (auto simp: adjustmentOf_def)

text \<open>
  C5. A successful \<open>rateTeammate\<close> call with an integer rating from 1 to 5 applies the
  adjustment -15 for rating 1, -5 for ratings 2 and 3, +5 for rating 4 and +10 for rating
  5, and the rated user's stored score afterwards is the maximum of 0 and the previous
  score plus the adjustment. In particular a user at score 10 who receives two ratings of
  1, from distinct (rater, project) pairs, ends at score 0.
\<close>

theorem rateTeammate_adjustment_and_floor:
  "(isInteger rating \<and> 1 \<le> rating \<and> rating \<le> 5 \<and> users s u = Some usr
      \<and> rateTeammate fails s r u p rating = (Inr res, s')
    \<longrightarrow> rr_adjustment res =
          (if rating = 1 then -15 else if rating = 2 \<or> rating = 3 then -5
           else if rating = 4 then 5 else 10)
        \<and> map_option reputationScore (users s' u)
            = Some (max 0 (reputationScore usr + rr_adjustment res)))
   \<and> (users s u = Some usr \<and> reputationScore usr = 10 \<and> (r1, p1) \<noteq> (r2, p2)
        \<and> rateTeammate fails1 s r1 u p1 1 = (Inr res1, s1)
        \<and> rateTeammate fails2 s1 r2 u p2 1 = (Inr res2, s2)
      \<longrightarrow> rr_adjustment res1 = -15 \<and> rr_adjustment res2 = -15
          \<and> map_option reputationScore (users s2 u) = Some 0)"
proof (intro conjI impI)
  assume a: "isInteger rating \<and> 1 \<le> rating \<and> rating \<le> 5 \<and> users s u = Some usr
      \<and> rateTeammate fails s r u p rating = (Inr res, s')"
  from a rateTeammate_success[of fails s r u p rating res s']
  have adj: "rr_adjustment res = adjustmentOf rating"
    and us: "users s' = (users s)(u \<mapsto> usr\<lparr>reputationScore := max 0 (reputationScore usr + adjustmentOf rating)\<rparr>)"
    by auto
  show "rr_adjustment res =
          (if rating = 1 then -15 else if rating = 2 \<or> rating = 3 then -5
           else if rating = 4 then 5 else 10)"
    using a adj adjustmentOf_table[of rating] by simp
  show "map_option reputationScore (users s' u)
            = Some (max 0 (reputationScore usr + rr_adjustment res))"
    by (simp add: us adj)
next
  assume b: "users s u = Some usr \<and> reputationScore usr = 10 \<and> (r1, p1) \<noteq> (r2, p2)
        \<and> rateTeammate fails1 s r1 u p1 1 = (Inr res1, s1)
        \<and> rateTeammate fails2 s1 r2 u p2 1 = (Inr res2, s2)"
  have one: "adjustmentOf 1 = -15" by (simp add: adjustmentOf_def)
  from b rateTeammate_success[of fails1 s r1 u p1 1 res1 s1]
  have adj1: "rr_adjustment res1 = -15"
    and us1: "users s1 u = Some (usr\<lparr>reputationScore := 0\<rparr>)"
    by (auto simp: one)
  from b rateTeammate_success[of fails2 s1 r2 u p2 1 res2 s2] us1
  have adj2: "rr_adjustment res2 = -15"
    and us2: "users s2 u = Some (usr\<lparr>reputationScore := 0\<rparr>)"
    by (auto simp: one)
  show "rr_adjustment res1 = -15" by (rule adj1)
  show "rr_adjustment res2 = -15" by (rule adj2)
  show "map_option reputationScore (users s2 u) = Some 0" by (simp add: us2)
qed

text \<open>The two ratings of 1 on the store \<open>ledger0\<close>, where the user starts at 10.\<close>

lemma ledger1_eq:
  "rateTeammate noFailure ledger0 ''r1'' ''u'' ''p'' 1 =
     (Inr \<lparr>rr_message = ''Rating recorded successfully'', rr_adjustment = -15, rr_newReputation = 0\<rparr>, ledger1)"
  unfolding ledger1_def by (simp add: rate_defs ledger0_def)

lemma ledger1_users: "users ledger1 ''u'' = Some \<lparr>name = ''Uma'', reputationScore = 0, activeProjectCount = 1\<rparr>"
  unfolding ledger1_def by (simp add: rate_defs ledger0_def)

lemma ledger1_logs: "reputationLogs ledger1 =
   [\<lparr>log_userId = ''u'', log_projectId = ''p'', log_change = -15, log_reason = ''Rating from user r1: 1/5''\<rparr>]"
  unfolding ledger1_def by (simp add: rate_defs ledger0_def)

lemma ledger2_eq:
  "rateTeammate noFailure ledger1 ''r2'' ''u'' ''p'' 1 =
     (Inr \<lparr>rr_message = ''Rating recorded successfully'', rr_adjustment = -15, rr_newReputation = 0\<rparr>, ledger2)"
  unfolding ledger2_def
  by (simp add: rateTeammate_def user_update_def existingRating_def isInteger_def
        adjustmentOf_def ratingPrefix_def noFailure_def ledger1_users ledger1_logs)

theorem rateTeammate_adjustment_and_floor_witness:
  "isInteger 1 \<and> users ledger0 ''u'' = Some \<lparr>name = ''Uma'', reputationScore = 10, activeProjectCount = 1\<rparr>
   \<and> fst (rateTeammate noFailure ledger0 ''r1'' ''u'' ''p'' 1)
       = Inr \<lparr>rr_message = ''Rating recorded successfully'', rr_adjustment = -15, rr_newReputation = 0\<rparr>
   \<and> map_option reputationScore (users ledger1 ''u'') = Some 0
   \<and> fst (rateTeammate noFailure ledger1 ''r2'' ''u'' ''p'' 1)
       = Inr \<lparr>rr_message = ''Rating recorded successfully'', rr_adjustment = -15, rr_newReputation = 0\<rparr>
   \<and> map_option reputationScore (users ledger2 ''u'') = Some 0"
  using rateTeammate_adjustment_and_floor[of 1 ledger0 "''u''"
          "\<lparr>name = ''Uma'', reputationScore = 10, activeProjectCount = 1\<rparr>"
          noFailure "''r1''" "''p''"
          "\<lparr>rr_message = ''Rating recorded successfully'', rr_adjustment = -15, rr_newReputation = 0\<rparr>"
          ledger1 "''r1''" "''p''" "''r2''" "''p''" noFailure
          "\<lparr>rr_message = ''Rating recorded successfully'', rr_adjustment = -15, rr_newReputation = 0\<rparr>"
          ledger1 noFailure
          "\<lparr>rr_message = ''Rating recorded successfully'', rr_adjustment = -15, rr_newReputation = 0\<rparr>"
          ledger2]
        ledger1_eq ledger2_eq
  by (simp add: isInteger_def ledger0_def)

text \<open>A rating of 4 on the store \<open>ledger0\<close>, by the rater \<open>ab\<close>.\<close>

lemma ledgerAb_eq:
  "rateTeammate noFailure ledger0 ''ab'' ''u'' ''p'' 4 =
     (Inr \<lparr>rr_message = ''Rating recorded successfully'', rr_adjustment = 5, rr_newReputation = 20\<rparr>, ledgerAb)"
  unfolding ledgerAb_def by (simp add: rate_defs ledger0_def)

lemma ledgerAb_logs: "reputationLogs ledgerAb =
   [\<lparr>log_userId = ''u'', log_projectId = ''p'', log_change = 5, log_reason = ''Rating from user ab: 4/5''\<rparr>]"
  unfolding ledgerAb_def by (simp add: rate_defs ledger0_def)

text \<open>
  C10. When \<open>rateTeammate\<close> succeeds for a rated user whose score before the call is
  \<open>s\<close>, with adjustment \<open>a\<close>, the returned \<open>newReputation\<close> is \<open>max 0 (s + 2 * a)\<close>
  while the stored score is \<open>max 0 (s + a)\<close>; the two differ exactly when \<open>a\<close> is not 0
  and they are not both clamped to 0.
\<close>

theorem rateTeammate_newReputation_adds_twice:
  "users s u = Some usr \<and> rateTeammate fails s r u p rating = (Inr res, s')
   \<longrightarrow> rr_newReputation res = max 0 (reputationScore usr + 2 * rr_adjustment res)
     \<and> map_option reputationScore (users s' u) = Some (max 0 (reputationScore usr + rr_adjustment res))
     \<and> (rr_newReputation res \<noteq> max 0 (reputationScore usr + rr_adjustment res)
          \<longleftrightarrow> rr_adjustment res \<noteq> 0
              \<and> \<not> (max 0 (reputationScore usr + 2 * rr_adjustment res) = 0
                   \<and> max 0 (reputationScore usr + rr_adjustment res) = 0))"
proof
  assume a: "users s u = Some usr \<and> rateTeammate fails s r u p rating = (Inr res, s')"
  from a rateTeammate_success[of fails s r u p rating res s']
  have adj: "rr_adjustment res = adjustmentOf rating"
    and new: "rr_newReputation res = max 0 (reputationScore usr + adjustmentOf rating + adjustmentOf rating)"
    and us: "users s' = (users s)(u \<mapsto> usr\<lparr>reputationScore := max 0 (reputationScore usr + adjustmentOf rating)\<rparr>)"
    by auto
  have n2: "rr_newReputation res = max 0 (reputationScore usr + 2 * rr_adjustment res)"
    by (simp add: new adj)
  have st: "map_option reputationScore (users s' u) = Some (max 0 (reputationScore usr + rr_adjustment res))"
    by (simp add: us adj)
  have df: "(rr_newReputation res \<noteq> max 0 (reputationScore usr + rr_adjustment res)
          \<longleftrightarrow> rr_adjustment res \<noteq> 0
              \<and> \<not> (max 0 (reputationScore usr + 2 * rr_adjustment res) = 0
                   \<and> max 0 (reputationScore usr + rr_adjustment res) = 0))"
    unfolding n2 by (auto simp: max_def)
  from n2 st df show "rr_newReputation res = max 0 (reputationScore usr + 2 * rr_adjustment res)
     \<and> map_option reputationScore (users s' u) = Some (max 0 (reputationScore usr + rr_adjustment res))
     \<and> (rr_newReputation res \<noteq> max 0 (reputationScore usr + rr_adjustment res)
          \<longleftrightarrow> rr_adjustment res \<noteq> 0
              \<and> \<not> (max 0 (reputationScore usr + 2 * rr_adjustment res) = 0
                   \<and> max 0 (reputationScore usr + rr_adjustment res) = 0))"
    by blast
qed

text \<open>C10 on \<open>ledger0\<close>: from 10, with rating 4, the call returns 20 and stores 15.\<close>

theorem rateTeammate_newReputation_adds_twice_witness:
  "users ledger0 ''u'' = Some \<lparr>name = ''Uma'', reputationScore = 10, activeProjectCount = 1\<rparr>
   \<and> fst (rateTeammate noFailure ledger0 ''ab'' ''u'' ''p'' 4)
       = Inr \<lparr>rr_message = ''Rating recorded successfully'', rr_adjustment = 5, rr_newReputation = 20\<rparr>
   \<and> map_option reputationScore (users ledgerAb ''u'') = Some 15"
  using rateTeammate_newReputation_adds_twice[of ledger0 "''u''"
          "\<lparr>name = ''Uma'', reputationScore = 10, activeProjectCount = 1\<rparr>"
          noFailure "''ab''" "''p''" 4
          "\<lparr>rr_message = ''Rating recorded successfully'', rr_adjustment = 5, rr_newReputation = 20\<rparr>"
          ledgerAb]
        ledgerAb_eq
  by (simp add: ledger0_def)

text \<open>
  After a successful rating by \<open>r\<close> of \<open>u\<close> for \<open>p\<close>, every later valid rating by the
  same rater of the same user for the same project is rejected and changes nothing.
\<close>

lemma ratingReason_prefix: "prefix (ratingPrefix r) (ratingReason r x)"
  by (simp add: ratingPrefix_def ratingReason_def)

lemma rateTeammate_duplicate_rejected:
  assumes first: "rateTeammate fails s r u p x = (Inr res, s')"
      and valid: "isInteger y" "1 \<le> y" "y \<le> 5"
  shows "rateTeammate fails' s' r u p y = (Inl Conflict, s')"
proof -
  from rateTeammate_success[OF first]
  have logs: "reputationLogs s' = reputationLogs s @
                 [\<lparr>log_userId = u, log_projectId = p,
                   log_change = adjustmentOf x, log_reason = ratingReason r x\<rparr>]"
    by blast
  have "existingRating s' r u p \<noteq> None"
    unfolding existingRating_def logs find_None_iff
    by (auto simp: ratingReason_prefix
          intro!: exI[of _ "\<lparr>log_userId = u, log_projectId = p,
                   log_change = adjustmentOf x, log_reason = ratingReason r x\<rparr>"])
  with valid show ?thesis
    by (simp add: rateTeammate_def)
qed

text \<open>
  C1. At most one log row exists per (rater, rated user, project), enforced on the triple
  itself and not by matching the reason text. The code matches a prefix of the reason
  text: after rater \<open>ab\<close> has rated \<open>u\<close> for \<open>p\<close>, the first rating of \<open>u\<close> for \<open>p\<close> by
  rater \<open>a\<close> is rejected as a duplicate although the log holds no row of that triple.
\<close>

theorem rateTeammate_prefix_collision:
  "fst (rateTeammate noFailure ledger0 ''ab'' ''u'' ''p'' 4)
     = Inr \<lparr>rr_message = ''Rating recorded successfully'', rr_adjustment = 5, rr_newReputation = 20\<rparr>
   \<and> entriesOf ledgerAb ''a'' ''u'' ''p'' = []
   \<and> rateTeammate noFailure ledgerAb ''a'' ''u'' ''p'' 5 = (Inl Conflict, ledgerAb)"
proof (intro conjI)
  show "fst (rateTeammate noFailure ledger0 ''ab'' ''u'' ''p'' 4)
     = Inr \<lparr>rr_message = ''Rating recorded successfully'', rr_adjustment = 5, rr_newReputation = 20\<rparr>"
    by (simp add: ledgerAb_eq)
  show "entriesOf ledgerAb ''a'' ''u'' ''p'' = []"
    by (simp add: entriesOf_def ledgerAb_logs ratingReason_def showRating_def)
  show "rateTeammate noFailure ledgerAb ''a'' ''u'' ''p'' 5 = (Inl Conflict, ledgerAb)"
    by (simp add: rateTeammate_def existingRating_def isInteger_def ratingPrefix_def ledgerAb_logs)
qed

text \<open>
  C4. The score change and the log row of a rating are recorded together or not at all.
  The code writes them one after the other with nothing joining them: when the store
  rejects the log row, the call fails with the score already raised from 10 to 15 and no
  row in the log.
\<close>

theorem rateTeammate_score_without_log:
  "fst (rateTeammate logStoreDown ledger0 ''r1'' ''u'' ''p'' 4) = Inl storeRejected
   \<and> map_option reputationScore (users (snd (rateTeammate logStoreDown ledger0 ''r1'' ''u'' ''p'' 4)) ''u'') = Some 15
   \<and> reputationLogs (snd (rateTeammate logStoreDown ledger0 ''r1'' ''u'' ''p'' 4)) = []
   \<and> map_option reputationScore (users ledger0 ''u'') = Some 10"
  by (simp add: rateTeammate_def user_update_def existingRating_def isInteger_def
        adjustmentOf_def logStoreDown_def ledger0_def)

section \<open>Properties of the membership state machine\<close>

text \<open>
  The store keeps one membership row per (project, user), so the members of one project
  are distinct users.
\<close>

lemma distinct_members_of_project:
  "distinct (map (\<lambda>m. (pm_projectId m, pm_userId m)) ms)
   \<Longrightarrow> distinct (map pm_userId (filter (\<lambda>m. pm_projectId m = pid) ms))"
  by (induction ms) (auto simp: image_iff)

text \<open>
  The queued decrements, run in order: all of them succeed when no member's update is
  rejected and every member has a user row, and then each member's count has gone down by
  one and no other row has changed; otherwise the run stops with an error.
\<close>

lemma runOps_decrement_all:
  "distinct uids \<Longrightarrow> \<forall>uid\<in>set uids. \<not> fails (UserUpdate uid) \<and> users s uid \<noteq> None
   \<Longrightarrow> runOps (map (decrementActive fails) uids) s =
        Inr (s\<lparr>users := \<lambda>uid. if uid \<in> set uids then map_option decremented (users s uid)
                             else users s uid\<rparr>)"
proof (induction uids arbitrary: s)
  case Nil
  then show ?case by simp
next
  case (Cons x xs)
  from Cons.prems obtain u where u: "users s x = Some u" and nf: "\<not> fails (UserUpdate x)"
    by auto
  let ?s1 = "s\<lparr>users := (users s)(x \<mapsto> decremented u)\<rparr>"
  have step: "decrementActive fails x s = Inr ?s1"
    by (simp add: decrementActive_def user_update_def u nf decremented_def)
  have pre: "\<forall>uid\<in>set xs. \<not> fails (UserUpdate uid) \<and> users ?s1 uid \<noteq> None"
    using Cons.prems by auto
  have dx: "distinct xs" and xn: "x \<notin> set xs" using Cons.prems by auto
  have "runOps (map (decrementActive fails) (x # xs)) s = runOps (map (decrementActive fails) xs) ?s1"
    by (simp add: step)
  also have "\<dots> = Inr (?s1\<lparr>users := \<lambda>uid. if uid \<in> set xs then map_option decremented (users ?s1 uid)
                             else users ?s1 uid\<rparr>)"
    by (rule Cons.IH[OF dx pre])
  also have "(?s1\<lparr>users := \<lambda>uid. if uid \<in> set xs then map_option decremented (users ?s1 uid)
                             else users ?s1 uid\<rparr>)
           = s\<lparr>users := \<lambda>uid. if uid \<in> set (x # xs) then map_option decremented (users s uid)
                             else users s uid\<rparr>"
    using xn u by (auto simp: fun_eq_iff)
  finally show ?case .
qed

lemma runOps_decrement_aborts:
  "\<exists>uid\<in>set uids. fails (UserUpdate uid) \<or> users s uid = None
   \<Longrightarrow> \<exists>e. runOps (map (decrementActive fails) uids) s = Inl e"
proof (induction uids arbitrary: s)
  case Nil
  then show ?case by simp
next
  case (Cons x xs)
  show ?case
  proof (cases "fails (UserUpdate x) \<or> users s x = None")
    case True
    then show ?thesis
      by (auto simp: decrementActive_def user_update_def)
  next
    case False
    then obtain u where u: "users s x = Some u" and nf: "\<not> fails (UserUpdate x)" by auto
    let ?s1 = "s\<lparr>users := (users s)(x \<mapsto> decremented u)\<rparr>"
    have step: "decrementActive fails x s = Inr ?s1"
      by (simp add: decrementActive_def user_update_def u nf decremented_def)
    from Cons.prems obtain uid where
      mem: "uid \<in> set (x # xs)" and bad: "fails (UserUpdate uid) \<or> users s uid = None"
      by blast
    from bad False have ne: "uid \<noteq> x" by auto
    with mem have "uid \<in> set xs" by simp
    moreover from bad ne have "fails (UserUpdate uid) \<or> users ?s1 uid = None" by simp
    ultimately have "\<exists>uid\<in>set xs. fails (UserUpdate uid) \<or> users ?s1 uid = None"
      by blast
    from Cons.IH[OF this] show ?thesis by (simp add: step)
  qed
qed

text \<open>
  What a call that passes the checks does, whatever happened between its read and its
  transaction: the transaction either commits, and then the project is completed and
  exactly the users whose membership rows were read have a count one lower, or it fails,
  the answer is the 500 error and the store is as the other requests left it.
\<close>

lemma completeProject_commit:
  assumes uniq: "distinct (map (\<lambda>m. (pm_projectId m, pm_userId m)) (projectMembers s))"
      and pid: "pid \<noteq> []"
      and proj: "projects s pid = Some p"
      and creator: "createdBy p = userId"
      and active: "status p = ''active''"
  shows "completeProject fails between s userId (Some pid) =
           (if \<not> fails (ProjectUpdate pid) \<and> projects (between s) pid \<noteq> None
               \<and> (\<forall>m\<in>set (membersOf s pid). \<not> fails (UserUpdate (pm_userId m))
                                             \<and> users (between s) (pm_userId m) \<noteq> None)
            then (completedMessage,
                  (between s)\<lparr>projects := (projects (between s))
                                 (pid \<mapsto> (the (projects (between s) pid))\<lparr>status := ''completed''\<rparr>),
                    users := \<lambda>uid. if uid \<in> pm_userId ` set (membersOf s pid)
                                   then map_option decremented (users (between s) uid)
                                   else users (between s) uid\<rparr>)
            else (InternalServerError, between s))"
proof -
  let ?uids = "map pm_userId (membersOf s pid)"
  let ?t = "between s"
  have ops: "map (\<lambda>member. decrementActive fails (pm_userId member)) (membersOf s pid)
             = map (decrementActive fails) ?uids"
    by simp
  have dist: "distinct ?uids"
    unfolding membersOf_def by (rule distinct_members_of_project[OF uniq])
  have unfold: "completeProject fails between s userId (Some pid) =
          (case transaction (project_update fails pid (\<lambda>q. q\<lparr>status := ''completed''\<rparr>)
                             # map (decrementActive fails) ?uids) ?t of
             (Inl e, s1) \<Rightarrow> (InternalServerError, s1)
           | (Inr u, s1) \<Rightarrow> (completedMessage, s1))"
    using pid proj creator active
    by (simp add: completeProject_def falsy_def Let_def ops del: map_map)
  show ?thesis
  proof (cases "fails (ProjectUpdate pid) \<or> projects ?t pid = None")
    case True
    then show ?thesis
      unfolding unfold by (auto simp: transaction_def project_update_def)
  next
    case False
    then obtain q where pf: "\<not> fails (ProjectUpdate pid)" and q: "projects ?t pid = Some q"
      by auto
    let ?s1 = "?t\<lparr>projects := (projects ?t)(pid \<mapsto> q\<lparr>status := ''completed''\<rparr>)\<rparr>"
    have first: "project_update fails pid (\<lambda>q. q\<lparr>status := ''completed''\<rparr>) ?t = Inr ?s1"
      by (simp add: project_update_def pf q)
    show ?thesis
    proof (cases "\<forall>uid\<in>set ?uids. \<not> fails (UserUpdate uid) \<and> users ?t uid \<noteq> None")
      case True
      then have "\<forall>uid\<in>set ?uids. \<not> fails (UserUpdate uid) \<and> users ?s1 uid \<noteq> None" by simp
      from runOps_decrement_all[OF dist this]
      have "runOps (map (decrementActive fails) ?uids) ?s1 =
              Inr (?s1\<lparr>users := \<lambda>uid. if uid \<in> set ?uids then map_option decremented (users ?s1 uid)
                             else users ?s1 uid\<rparr>)" .
      with True pf q show ?thesis
        unfolding unfold by (simp add: transaction_def first cong: if_cong)
    next
      case False
      then have "\<exists>uid\<in>set ?uids. fails (UserUpdate uid) \<or> users ?s1 uid = None" by auto
      from runOps_decrement_aborts[OF this] obtain e where
        "runOps (map (decrementActive fails) ?uids) ?s1 = Inl e" by blast
      with False pf q show ?thesis
        unfolding unfold by (auto simp: transaction_def first)
    qed
  qed
qed

text \<open>
  A call that runs alone is all or nothing for the members the store holds: the users
  with a membership row of the project.
\<close>

lemma completeProject_alone:
  assumes uniq: "distinct (map (\<lambda>m. (pm_projectId m, pm_userId m)) (projectMembers s))"
      and pid: "pid \<noteq> []"
      and proj: "projects s pid = Some p"
      and creator: "createdBy p = userId"
      and active: "status p = ''active''"
  shows "completeProject fails alone s userId (Some pid) =
           (if \<not> fails (ProjectUpdate pid)
               \<and> (\<forall>m\<in>set (projectMembers s). pm_projectId m = pid \<longrightarrow>
                      \<not> fails (UserUpdate (pm_userId m)) \<and> users s (pm_userId m) \<noteq> None)
            then (completedMessage,
                  s\<lparr>projects := (projects s)(pid \<mapsto> p\<lparr>status := ''completed''\<rparr>),
                    users := \<lambda>uid. if \<exists>m\<in>set (projectMembers s). pm_projectId m = pid \<and> pm_userId m = uid
                                   then map_option decremented (users s uid)
                                   else users s uid\<rparr>)
            else (InternalServerError, s))"
proof -
  have mem: "\<And>uid. (uid \<in> pm_userId ` set (membersOf s pid))
                 = (\<exists>m\<in>set (projectMembers s). pm_projectId m = pid \<and> pm_userId m = uid)"
    by (auto simp: membersOf_def)
  have all: "(\<forall>m\<in>set (membersOf s pid). \<not> fails (UserUpdate (pm_userId m))
                                             \<and> users s (pm_userId m) \<noteq> None)
           = (\<forall>m\<in>set (projectMembers s). pm_projectId m = pid \<longrightarrow>
                      \<not> fails (UserUpdate (pm_userId m)) \<and> users s (pm_userId m) \<noteq> None)"
    by (auto simp: membersOf_def)
  have c: "completeProject fails alone s userId (Some pid) =
           (if \<not> fails (ProjectUpdate pid)
               \<and> (\<forall>m\<in>set (membersOf s pid). \<not> fails (UserUpdate (pm_userId m))
                                             \<and> users s (pm_userId m) \<noteq> None)
            then (completedMessage,
                  s\<lparr>projects := (projects s)(pid \<mapsto> p\<lparr>status := ''completed''\<rparr>),
                    users := \<lambda>uid. if uid \<in> pm_userId ` set (membersOf s pid)
                                   then map_option decremented (users s uid)
                                   else users s uid\<rparr>)
            else (InternalServerError, s))"
    using completeProject_commit[OF assms, of fails alone]
    by (simp only: alone_def proj option.sel option.distinct not_False_eq_True simp_thms)
  show ?thesis
    by (simp only: c all mem)
qed

text \<open>
  On the project of A, B and C, each at count 1, a call that runs alone brings all three
  to 0 and completes the project; when the update of the last member is rejected,
  nothing has changed.
\<close>

lemma completeProject_alone_team:
  "fst (completeProject noFailure alone team0 ''A'' (Some ''p1'')) = completedMessage
   \<and> map_option status (projects (snd (completeProject noFailure alone team0 ''A'' (Some ''p1''))) ''p1'')
       = Some ''completed''
   \<and> map (\<lambda>uid. map_option activeProjectCount
                   (users (snd (completeProject noFailure alone team0 ''A'' (Some ''p1''))) uid))
         [''A'', ''B'', ''C''] = [Some 0, Some 0, Some 0]
   \<and> map (\<lambda>uid. map_option activeProjectCount (users team0 uid)) [''A'', ''B'', ''C'']
       = [Some 1, Some 1, Some 1]
   \<and> completeProject lastMemberUpdateFails alone team0 ''A'' (Some ''p1'') = (InternalServerError, team0)"
  using completeProject_alone[of team0 "''p1''"
          "\<lparr>title = ''Compiler'', description = ''A small compiler'', domain = ''systems'',
            createdBy = ''A'', status = ''active'', deadline = None\<rparr>" "''A''" noFailure]
        completeProject_alone[of team0 "''p1''"
          "\<lparr>title = ''Compiler'', description = ''A small compiler'', domain = ''systems'',
            createdBy = ''A'', status = ''active'', deadline = None\<rparr>" "''A''" lastMemberUpdateFails]
  by (simp add: team0_def noFailure_def lastMemberUpdateFails_def decremented_def)

text \<open>The tables of \<open>team0\<close>, and the store after D has joined its project \<open>p1\<close>.\<close>

lemma team0_tables:
  "users team0 = [''A'' \<mapsto> \<lparr>name = ''Ann'', reputationScore = 80, activeProjectCount = 1\<rparr>,
                  ''B'' \<mapsto> \<lparr>name = ''Bob'', reputationScore = 75, activeProjectCount = 1\<rparr>,
                  ''C'' \<mapsto> \<lparr>name = ''Cy'', reputationScore = 90, activeProjectCount = 1\<rparr>,
                  ''D'' \<mapsto> \<lparr>name = ''Dee'', reputationScore = 85, activeProjectCount = 0\<rparr>]"
  "projects team0 = [''p1'' \<mapsto> \<lparr>title = ''Compiler'', description = ''A small compiler'',
                                 domain = ''systems'', createdBy = ''A'', status = ''active'',
                                 deadline = None\<rparr>]"
  "projectMembers team0 = [\<lparr>pm_projectId = ''p1'', pm_userId = ''A'', pm_role = ''leader''\<rparr>,
                           \<lparr>pm_projectId = ''p1'', pm_userId = ''B'', pm_role = ''member''\<rparr>,
                           \<lparr>pm_projectId = ''p1'', pm_userId = ''C'', pm_role = ''member''\<rparr>]"
  by (simp_all add: team0_def)

lemma joinOfD_team0:
  "joinProject noFailure team0 ''D'' (Some ''p1'')
     = (Msg 200 ''Successfully joined the project'', joinOfD team0)"
  "projectMembers (joinOfD team0) = projectMembers team0 @
         [\<lparr>pm_projectId = ''p1'', pm_userId = ''D'', pm_role = ''member''\<rparr>]"
  "users (joinOfD team0) uid = ((users team0)
         (''D'' \<mapsto> \<lparr>name = ''Dee'', reputationScore = 85, activeProjectCount = 1\<rparr>)) uid"
  "projects (joinOfD team0) pid = projects team0 pid"
  by (simp_all add: joinOfD_def joinProject_def existingMember_def user_update_def falsy_def
        noFailure_def team0_def Let_def)

text \<open>
  C3. When the creator completes an active project, the status becomes completed and the
  count of every current member goes down by one, as one unit, and a state where some
  members are decremented and others are not is never observable, also under concurrent
  access. The handler reads the members before the transaction and outside it: when D's
  join is served between the read and the transaction, the transaction commits on the
  members that were read. The project is completed, its members are A, B, C and D, the
  counts of A, B and C are 0 and the count of D is still 1.
\<close>

theorem completeProject_misses_late_joiner:
  "fst (joinProject noFailure team0 ''D'' (Some ''p1'')) = Msg 200 ''Successfully joined the project''
   \<and> fst (completeProject noFailure joinOfD team0 ''A'' (Some ''p1'')) = completedMessage
   \<and> map_option status
         (projects (snd (completeProject noFailure joinOfD team0 ''A'' (Some ''p1''))) ''p1'')
       = Some ''completed''
   \<and> map pm_userId (membersOf (snd (completeProject noFailure joinOfD team0 ''A'' (Some ''p1''))) ''p1'')
       = [''A'', ''B'', ''C'', ''D'']
   \<and> map (\<lambda>uid. map_option activeProjectCount
                   (users (snd (completeProject noFailure joinOfD team0 ''A'' (Some ''p1''))) uid))
         [''A'', ''B'', ''C'', ''D''] = [Some 0, Some 0, Some 0, Some 1]"
proof -
  have run: "completeProject noFailure joinOfD team0 ''A'' (Some ''p1'') =
               (completedMessage,
                (joinOfD team0)\<lparr>projects := (projects (joinOfD team0))
                                   (''p1'' \<mapsto> (the (projects (joinOfD team0) ''p1''))\<lparr>status := ''completed''\<rparr>),
                  users := \<lambda>uid. if uid \<in> pm_userId ` set (membersOf team0 ''p1'')
                                 then map_option decremented (users (joinOfD team0) uid)
                                 else users (joinOfD team0) uid\<rparr>)"
    using completeProject_commit[of team0 "''p1''"
          "\<lparr>title = ''Compiler'', description = ''A small compiler'', domain = ''systems'',
            createdBy = ''A'', status = ''active'', deadline = None\<rparr>" "''A''" noFailure joinOfD]
    by (simp add: joinOfD_team0 team0_tables membersOf_def noFailure_def)
  have joined: "fst (joinProject noFailure team0 ''D'' (Some ''p1''))
                  = Msg 200 ''Successfully joined the project''"
    by (simp add: joinOfD_team0)
  have answer: "fst (completeProject noFailure joinOfD team0 ''A'' (Some ''p1'')) = completedMessage"
    by (simp add: run)
  have completed: "map_option status
         (projects (snd (completeProject noFailure joinOfD team0 ''A'' (Some ''p1''))) ''p1'')
       = Some ''completed''"
    by (simp add: run joinOfD_team0 team0_tables)
  have members: "map pm_userId
         (membersOf (snd (completeProject noFailure joinOfD team0 ''A'' (Some ''p1''))) ''p1'')
       = [''A'', ''B'', ''C'', ''D'']"
    by (simp add: run membersOf_def joinOfD_team0 team0_tables)
  have counts: "map (\<lambda>uid. map_option activeProjectCount
                   (users (snd (completeProject noFailure joinOfD team0 ''A'' (Some ''p1''))) uid))
         [''A'', ''B'', ''C'', ''D''] = [Some 0, Some 0, Some 0, Some 1]"
    by (simp add: run joinOfD_team0 team0_tables membersOf_def decremented_def)
  show ?thesis
    by (intro conjI joined answer completed members counts)
qed

text \<open>
  C2, as stated: every \<open>createProject\<close> and \<open>joinProject\<close> call of a user with two or
  more active projects fails with the capacity error. \<open>createProject\<close> checks the body
  before it reads the count: with an empty title the user at the cap gets the validation
  error instead.
\<close>

theorem capped_create_validation_first:
  "map_option activeProjectCount (users capped0 ''u'') = Some 2
   \<and> createProject noFailure ''p9'' capped0 ''u'' untitledBody
       = (Err 400 ''Title, description and domain are required'', capped0)
   \<and> fst (createProject noFailure ''p9'' capped0 ''u'' untitledBody) \<noteq> CapacityExceeded"
  by (simp add: createProject_def capped0_def untitledBody_def falsy_def CapacityExceeded_def)

text \<open>
  C2, amended. For a user with two or more active projects, \<open>createProject\<close> with a
  title, a description and a domain, and \<open>joinProject\<close> with a project id, fail with the
  capacity error; and every \<open>createProject\<close> and \<open>joinProject\<close> call of that user,
  whatever the body, is answered with a 400 error and leaves the store as it was: no
  project, no membership, no change of the count.
\<close>

theorem capped_user_rejected:
  assumes "users s userId = Some u" and "activeProjectCount u \<ge> 2"
  shows "(\<not> falsy (cb_title body) \<and> \<not> falsy (cb_description body) \<and> \<not> falsy (cb_domain body)
            \<longrightarrow> createProject fails newId s userId body = (CapacityExceeded, s))
       \<and> (\<not> falsy projectId \<longrightarrow> joinProject fails s userId projectId = (CapacityExceeded, s))
       \<and> (\<exists>msg. createProject fails newId s userId body = (Err 400 msg, s))
       \<and> (\<exists>msg. joinProject fails s userId projectId = (Err 400 msg, s))"
  using assms by (simp add: createProject_def joinProject_def CapacityExceeded_def)

theorem capped_user_rejected_witness:
  "createProject noFailure ''p9'' capped0 ''u'' fullBody = (CapacityExceeded, capped0)
   \<and> joinProject noFailure capped0 ''u'' (Some ''p1'') = (CapacityExceeded, capped0)"
  using capped_user_rejected[of capped0 "''u''"
          "\<lparr>name = ''Uma'', reputationScore = 80, activeProjectCount = 2\<rparr>"
          fullBody noFailure "''p9''" "Some ''p1''"]
  by (simp add: capped0_def fullBody_def falsy_def)

section \<open>Properties of the presence and delivery hub\<close>

lemma hub1_eq:
  "hub1 = \<lparr>onlineUsers = [''u'' \<mapsto> ''c1''],
           sockets = [\<lparr>sock_id = ''c1'', sock_userId = Some ''u'', sock_rooms = [''user:u'']\<rparr>]\<rparr>"
  by (simp add: Let_def hub1_def authenticate_def connection_def emptyHub_def tokens_def falsy_def userRoom_def)

lemma hub2_eq:
  "hub2 = \<lparr>onlineUsers = [''u'' \<mapsto> ''c2''],
           sockets = [\<lparr>sock_id = ''c1'', sock_userId = Some ''u'', sock_rooms = [''user:u'']\<rparr>,
                      \<lparr>sock_id = ''c2'', sock_userId = Some ''u'', sock_rooms = [''user:u'']\<rparr>]\<rparr>"
  by (simp add: Let_def hub2_def hub1_eq authenticate_def connection_def tokens_def falsy_def userRoom_def)

lemma hub3_eq:
  "hub3 = \<lparr>onlineUsers = Map.empty,
           sockets = [\<lparr>sock_id = ''c2'', sock_userId = Some ''u'', sock_rooms = [''user:u'']\<rparr>]\<rparr>"
  by (simp add: Let_def hub3_def hub2_eq disconnect_def findSocket_def falsy_def)

text \<open>
  After a successful \<open>authenticate\<close> on a connected socket, a delivery to the user is
  emitted to the user's room and reaches that socket; after the \<open>disconnect\<close> of a socket
  authenticated as a user, a delivery to that user is emitted to nobody.
\<close>

lemma deliver_after_authenticate:
  assumes "jwt_verify token = Some (Some uid)" and "uid \<noteq> []"
      and "findSocket h sid \<noteq> None" and "sid \<noteq> []"
  shows "deliver (snd (authenticate jwt_verify h sid token)) uid e = [(ToRoom (userRoom uid), e)]"
    and "sid \<in> set (reached (snd (authenticate jwt_verify h sid token)) (ToRoom (userRoom uid)))"
  using assms
  by (auto simp: authenticate_def deliver_def falsy_def Let_def reached_def findSocket_def
        find_None_iff image_iff)

lemma deliver_after_disconnect:
  assumes "findSocket h sid = Some k" and "sock_userId k = Some uid" and "uid \<noteq> []"
  shows "deliver (snd (disconnect h sid)) uid e = []"
  using assms by (simp add: disconnect_def deliver_def falsy_def Let_def)

text \<open>
  C8. When \<open>u\<close> authenticates on \<open>c1\<close>, then on a new connection \<open>c2\<close>, and \<open>c1\<close> then
  disconnects, the registry still maps \<open>u\<close> to \<open>c2\<close> and a delivery to \<open>u\<close> reaches
  \<open>c2\<close>. In the code the \<open>disconnect\<close> handler of \<open>c1\<close> deletes the entry of \<open>u\<close>
  without looking at the socket id stored in it: afterwards \<open>c2\<close> is still connected,
  authenticated as \<open>u\<close> and in the room of \<open>u\<close>, the registry has no entry for \<open>u\<close>, and
  a delivery to \<open>u\<close> is emitted to nobody.
\<close>

theorem stale_disconnect_unregisters:
  "onlineUsers hub2 ''u'' = Some ''c2''
   \<and> reached hub2 (ToRoom (userRoom ''u'')) = [''c1'', ''c2'']
   \<and> sockets hub3 = [\<lparr>sock_id = ''c2'', sock_userId = Some ''u'', sock_rooms = [userRoom ''u'']\<rparr>]
   \<and> reached hub3 (ToRoom (userRoom ''u'')) = [''c2'']
   \<and> onlineUsers hub3 ''u'' = None
   \<and> deliver hub3 ''u'' e = []"
proof -
  have registered: "onlineUsers hub2 ''u'' = Some ''c2''"
    by (simp add: hub2_eq)
  have both: "reached hub2 (ToRoom (userRoom ''u'')) = [''c1'', ''c2'']"
    by (simp add: hub2_eq reached_def userRoom_def)
  have left: "sockets hub3 = [\<lparr>sock_id = ''c2'', sock_userId = Some ''u'', sock_rooms = [userRoom ''u'']\<rparr>]"
    by (simp add: hub3_eq userRoom_def)
  have room: "reached hub3 (ToRoom (userRoom ''u'')) = [''c2'']"
    by (simp add: hub3_eq reached_def userRoom_def)
  have gone: "onlineUsers hub3 ''u'' = None"
    by (simp add: hub3_eq)
  then have silent: "deliver hub3 ''u'' e = []"
    by (simp add: deliver_def falsy_def)
  show ?thesis
    by (intro conjI registered both left room gone silent)
qed

text \<open>
  C6. \<open>markAsRead\<close> for a message whose receiver is not the caller fails with not-found
  and changes no read flag. The handler updates the message by its id alone: eve, who
  is neither sender nor receiver of \<open>m1\<close>, marks it read, is told \<open>readConfirmed\<close>, and
  the sender gets a read receipt naming eve.
\<close>

theorem markAsRead_by_stranger:
  "map msg_receiverId (filter (\<lambda>m. msg_id m = ''m1'') (messages chat0)) = [''bob'']
   \<and> Option.bind (findSocket chatHub ''e1'') sock_userId = Some ''eve''
   \<and> markAsRead noFailure chatHub chat0 ''e1'' ''m1''
       = ([(ToRoom ''user:alice'', MessageRead ''m1'' (Some ''eve'')),
           (ToSocket ''e1'', ReadConfirmed ''m1'')],
          chat0\<lparr>messages := [\<lparr>msg_id = ''m1'', msg_senderId = ''alice'', msg_receiverId = ''bob'',
                                msg_content = ''hi'', msg_isRead = True\<rparr>]\<rparr>)"
  by (simp add: Let_def markAsRead_def chat0_def chatHub_def findSocket_def noFailure_def deliver_def
        falsy_def userRoom_def)

text \<open>A notification the store rejects makes \<open>createNotification\<close> of socket.js throw.\<close>

lemma createNotification_rethrows:
  "fails NotificationCreate \<Longrightarrow> createNotification fails s userId type msg = (Inl storeRejected, [], s)"
  by (simp add: createNotification_def Let_def)

text \<open>
  C7. A notification that cannot be stored is logged and suppressed, and the operation
  that caused it reports no error. In socket.js \<open>createNotification\<close> throws the error
  again and \<open>sendMessage\<close> awaits it inside its \<open>try\<close>: alice's message is stored and
  confirmed with \<open>messageSent\<close>, and then she is sent the error \<open>Failed to send message\<close>.
  The helper of the same name in notification.controller.js returns \<open>null\<close> on the same
  store.
\<close>

theorem sendMessage_reports_notification_failure:
  "sendMessage notificationStoreDown ''m2'' chatHub chat0 ''a1'' ''bob'' ''hello''
     = ([(ToSocket ''a1'', MessageSent \<lparr>msg_id = ''m2'', msg_senderId = ''alice'',
                                        msg_receiverId = ''bob'', msg_content = ''hello'',
                                        msg_isRead = False\<rparr>),
         (ToSocket ''a1'', ErrorEvent ''Failed to send message'')],
        chat0\<lparr>messages := messages chat0 @
                  [\<lparr>msg_id = ''m2'', msg_senderId = ''alice'', msg_receiverId = ''bob'',
                    msg_content = ''hello'', msg_isRead = False\<rparr>]\<rparr>)
   \<and> fst (createNotification notificationStoreDown chat0 ''bob'' ''message_received''
             ''New message from Alice'') = Inl storeRejected
   \<and> createNotification_controller notificationStoreDown chat0 ''bob'' ''message_received''
         ''MESSAGE RECEIVED'' ''New message from Alice'' = (None, chat0)"
  by (simp add: Let_def sendMessage_def createNotification_def createNotification_controller_def
        notificationStoreDown_def chat0_def chatHub_def findSocket_def deliver_def falsy_def
        trim_def isSpace_def)

section \<open>Properties of the ranking engine\<close>

lemma set_newSet: "set (newSet xs) = set xs"
  by (induction xs) auto

lemma distinct_newSet: "distinct (newSet xs)"
  by (induction xs) (auto simp: set_newSet)

lemma length_newSet: "length (newSet xs) = card (set xs)"
  using distinct_card[OF distinct_newSet, of xs] by (simp add: set_newSet)

lemma length_filter_has:
  "distinct xs \<Longrightarrow> length (filter (\<lambda>id. has ys id) xs) = card (set xs \<inter> set ys)"
proof -
  assume d: "distinct xs"
  then have "distinct (filter (\<lambda>id. has ys id) xs)" by simp
  from distinct_card[OF this]
  have "length (filter (\<lambda>id. has ys id) xs) = card (set (filter (\<lambda>id. has ys id) xs))" by simp
  also have "set (filter (\<lambda>id. has ys id) xs) = set xs \<inter> set ys"
    by (auto simp: has_def)
  finally show ?thesis .
qed

lemma union_size:
  "card (set xs) + card (set ys) - card (set xs \<inter> set ys) = card (set xs \<union> set ys)"
  using card_Un_Int[of "set xs" "set ys"] by simp

lemma skillMatchPercent_jaccard:
  "skillMatchPercent xs ys =
     (if card (set xs \<union> set ys) > 0
      then Math_round (toDouble (toDouble (of_nat (card (set xs \<inter> set ys))
                                            / of_nat (card (set xs \<union> set ys))) * 100))
      else 0)"
proof -
  have i: "length (filter (\<lambda>id. has (newSet ys) id) (newSet xs)) = card (set xs \<inter> set ys)"
    using length_filter_has[where xs = "newSet xs" and ys = "newSet ys", OF distinct_newSet]
    by (simp add: set_newSet)
  have u: "length (newSet xs) + length (newSet ys) - card (set xs \<inter> set ys)
             = card (set xs \<union> set ys)"
    by (simp only: length_newSet union_size)
  show ?thesis
    unfolding skillMatchPercent_def Let_def i u by (rule refl)
qed

lemma service_agrees:
  "calculateSkillMatchPercent (newSet xs) (newSet ys) = skillMatchPercent xs ys"
  by (simp add: calculateSkillMatchPercent_def skillMatchPercent_def Let_def)

text \<open>Rounding to an integer moves a number by at most one half.\<close>

lemma Math_round_nearest: "\<bar>of_int (Math_round x) - x\<bar> \<le> 1 / 2"
  unfolding Math_round_def by linarith

lemma roundHalfEven_near: "\<bar>of_int (roundHalfEven y) - y\<bar> \<le> 1 / 2"
proof -
  have "of_int \<lfloor>y\<rfloor> \<le> y" "y < of_int \<lfloor>y\<rfloor> + 1" by linarith+
  then show ?thesis
    unfolding roundHalfEven_def Let_def by (auto split: if_splits) 
qed

text \<open>
  The exponent of a positive number is the floor of its binary logarithm:
  \<open>2 powi exponent x \<le> x < 2 powi (exponent x + 1)\<close>.
\<close>

lemma exponent_le:
  assumes "0 < x"
  shows "2 powi (exponent x) \<le> x"
proof -
  obtain a b where q: "quotient_of x = (a, b)" by (cases "quotient_of x")
  then have b: "0 < b" and x: "x = of_int a / of_int b"
    using quotient_of_denom_pos quotient_of_div by blast+
  with assms have a: "0 < a"
    by (simp add: zero_less_divide_iff)
  let ?e0 = "bitlen a - bitlen b"
  show ?thesis
  proof (cases "x < 2 powi ?e0")
    case False
    then show ?thesis by (simp add: exponent_def q)
  next
    case True
    then have e: "exponent x = ?e0 - 1" by (simp add: exponent_def q)
    from bitlen_bounds[OF a] have la: "2 ^ nat (bitlen a - 1) \<le> a" by simp
    from bitlen_bounds[OF b] have lb: "b < 2 ^ nat (bitlen b)" by simp
    have pa: "1 \<le> bitlen a" using a by (simp add: bitlen_alt_def)
    have pb: "0 \<le> bitlen b" by (rule bitlen_nonneg)
    have "?e0 - 1 = (bitlen a - 1) - bitlen b" by arith
    then have "(2::rat) powi (?e0 - 1) = 2 powi ((bitlen a - 1) - bitlen b)" by (rule arg_cong)
    also have "\<dots> = 2 powi (bitlen a - 1) / 2 powi (bitlen b)"
      by (rule power_int_diff) simp
    also have "\<dots> = 2 ^ nat (bitlen a - 1) / 2 ^ nat (bitlen b)"
      using pa pb by (simp add: power_int_def)
    also have "\<dots> \<le> of_int a / of_int b"
    proof (rule frac_le)
      show "(0::rat) \<le> of_int a" using a by simp
      show "(0::rat) < of_int b" using b by simp
      have "(of_int (2 ^ nat (bitlen a - 1)) :: rat) \<le> of_int a" using la by (simp only: of_int_le_iff)
      then show "(2::rat) ^ nat (bitlen a - 1) \<le> of_int a" by simp
      have "(of_int b :: rat) \<le> of_int (2 ^ nat (bitlen b))" using lb by (simp only: of_int_le_iff)
      then show "(of_int b :: rat) \<le> 2 ^ nat (bitlen b)" by simp
    qed
    finally have "2 powi (?e0 - 1) \<le> x" by (simp only: x)
    then show ?thesis by (simp only: e)
  qed
qed

lemma exponent_gt:
  assumes "0 < x"
  shows "x < 2 powi (exponent x + 1)"
proof -
  obtain a b where q: "quotient_of x = (a, b)" by (cases "quotient_of x")
  then have b: "0 < b" and x: "x = of_int a / of_int b"
    using quotient_of_denom_pos quotient_of_div by blast+
  with assms have a: "0 < a"
    by (simp add: zero_less_divide_iff)
  let ?e0 = "bitlen a - bitlen b"
  show ?thesis
  proof (cases "x < 2 powi ?e0")
    case True
    then show ?thesis by (simp add: exponent_def q)
  next
    case False
    then have e: "exponent x = ?e0" by (simp add: exponent_def q)
    from bitlen_bounds[OF a] have la: "a < 2 ^ nat (bitlen a)" by simp
    from bitlen_bounds[OF b] have lb: "2 ^ nat (bitlen b - 1) \<le> b" by simp
    have pa: "0 \<le> bitlen a" by (rule bitlen_nonneg)
    have pb: "1 \<le> bitlen b" using b by (simp add: bitlen_alt_def)
    have "of_int a / of_int b < (2::rat) ^ nat (bitlen a) / 2 ^ nat (bitlen b - 1)"
    proof (rule frac_less)
      show "(0::rat) \<le> of_int a" using a by simp
      show "(0::rat) < 2 ^ nat (bitlen b - 1)" by simp
      have "(of_int a :: rat) < of_int (2 ^ nat (bitlen a))" using la by (simp only: of_int_less_iff)
      then show "(of_int a :: rat) < 2 ^ nat (bitlen a)" by simp
      have "(of_int (2 ^ nat (bitlen b - 1)) :: rat) \<le> of_int b" using lb by (simp only: of_int_le_iff)
      then show "(2::rat) ^ nat (bitlen b - 1) \<le> of_int b" by simp
    qed
    also have "\<dots> = 2 powi (bitlen a) / 2 powi (bitlen b - 1)"
      using pa pb by (simp add: power_int_def)
    also have "\<dots> = 2 powi (bitlen a - (bitlen b - 1))"
      by (rule power_int_diff[symmetric]) simp
    also have "bitlen a - (bitlen b - 1) = ?e0 + 1" by arith
    finally have "x < 2 powi (?e0 + 1)" by (simp only: x)
    then show ?thesis by (simp only: e)
  qed
qed

text \<open>
  Rounding a positive number to a double changes it by at most half a unit in the last
  place, which is at most the number divided by \<open>2 ^ 53\<close>.
\<close>

lemma toDouble_error:
  assumes "0 < x"
  shows "\<bar>toDouble x - x\<bar> \<le> x / 2 ^ 53"
proof -
  define e where "e = exponent x"
  define ulp :: rat where "ulp = 2 powi (e - 52)"
  have ulp_pos: "0 < ulp" by (simp add: ulp_def)
  have ulp_eq: "ulp = 2 powi e / 2 ^ 52"
    by (simp add: ulp_def power_int_diff)
  have td: "toDouble x = ulp * of_int (roundHalfEven (x / ulp))"
    using assms by (simp add: toDouble_def Let_def ulp_def e_def)
  have "toDouble x - x = ulp * (of_int (roundHalfEven (x / ulp)) - x / ulp)"
    using ulp_pos by (simp add: td algebra_simps)
  then have "\<bar>toDouble x - x\<bar> = ulp * \<bar>of_int (roundHalfEven (x / ulp)) - x / ulp\<bar>"
    using ulp_pos by (simp add: abs_mult)
  also have "\<dots> \<le> ulp * (1 / 2)"
    using ulp_pos roundHalfEven_near[of "x / ulp"] by (intro mult_left_mono) auto
  also have "\<dots> = 2 powi e / 2 ^ 53"
    by (simp add: ulp_eq)
  also have "\<dots> \<le> x / 2 ^ 53"
    using exponent_le[OF assms] by (simp add: e_def divide_right_mono)
  finally show ?thesis .
qed

lemma toDouble_0: "toDouble 0 = 0"
  by (simp add: toDouble_def)

lemma toDouble_exact: "toDouble 1 = 1" "toDouble 100 = 100"
  by code_simp+

text \<open>
  The percentage of \<open>i\<close> in \<open>u\<close> as the code computes it, in doubles: the two rounding
  errors together are below \<open>1 / (2 * u)\<close>, the least distance between \<open>100 * i / u + 1 / 2\<close>
  and an integer it is not equal to. So the result is the integer nearest to the exact
  percentage, and at an exact tie one of the two nearest.
\<close>

lemma percent_near:
  fixes i u :: nat
  assumes iu: "i \<le> u" and u0: "0 < u" and ub: "u < 2 ^ 33"
  shows "\<bar>of_int (Math_round (toDouble (toDouble (of_nat i / of_nat u) * 100)))
           - 100 * of_nat i / of_nat u\<bar> \<le> (1 / 2 :: rat)"
proof (cases "i = 0")
  case True
  have "Math_round 0 = 0" by (simp add: Math_round_def floor_eq_iff)
  with True show ?thesis by (simp add: toDouble_0)
next
  case False
  define I :: rat where "I = of_nat i"
  define U :: rat where "U = of_nat u"
  define x where "x = I / U"
  define q where "q = toDouble x"
  define p where "p = toDouble (q * 100)"
  define r where "r = Math_round p"
  have Ipos: "0 < I" using False by (simp add: I_def)
  have Upos: "0 < U" using u0 by (simp add: U_def)
  have IU: "I \<le> U" using iu by (simp add: I_def U_def)
  have Ub: "U \<le> 2 ^ 33"
  proof -
    have "(of_nat u :: rat) \<le> of_nat (2 ^ 33)" using ub by (simp only: of_nat_le_iff less_imp_le)
    then show ?thesis by (simp add: U_def)
  qed
  have xpos: "0 < x" using Ipos Upos by (simp add: x_def)
  have x1: "x \<le> 1" using IU Upos by (simp add: x_def)
  have xU: "x * U = I" using Upos by (simp add: x_def)
  have eq: "\<bar>q - x\<bar> \<le> x / 2 ^ 53"
    unfolding q_def by (rule toDouble_error[OF xpos])
  have eq1: "\<bar>q - x\<bar> \<le> 1 / 2 ^ 53"
    using eq x1 by (simp add: field_simps)
  have qpos: "0 < q"
  proof -
    have "x / 2 ^ 53 < x" using xpos by (simp add: field_simps)
    with eq show ?thesis by linarith
  qed
  have q2: "q \<le> 2"
  proof -
    have "\<bar>q - x\<bar> \<le> 1" using eq1 by (rule order_trans) simp
    with x1 show ?thesis by linarith
  qed
  have ypos: "0 < q * 100" using qpos by simp
  have ep: "\<bar>p - q * 100\<bar> \<le> q * 100 / 2 ^ 53"
    unfolding p_def by (rule toDouble_error[OF ypos])
  have ep1: "\<bar>p - q * 100\<bar> \<le> 200 / 2 ^ 53"
  proof -
    have "q * 100 / 2 ^ 53 \<le> 2 * 100 / 2 ^ 53"
      using q2 by (intro divide_right_mono mult_right_mono) auto
    with ep show ?thesis by simp
  qed
  have eps: "\<bar>p - 100 * x\<bar> \<le> 300 / 2 ^ 53"
  proof -
    have "p - 100 * x = (p - q * 100) + 100 * (q - x)" by simp
    then have "\<bar>p - 100 * x\<bar> \<le> \<bar>p - q * 100\<bar> + \<bar>100 * (q - x)\<bar>"
      by (simp only: abs_triangle_ineq)
    also have "\<dots> = \<bar>p - q * 100\<bar> + 100 * \<bar>q - x\<bar>"
      by (simp only: abs_mult abs_numeral)
    also have "\<dots> \<le> 200 / 2 ^ 53 + 100 * (1 / 2 ^ 53)"
      using ep1 eq1 by (intro add_mono mult_left_mono) auto
    also have "\<dots> = 300 / 2 ^ 53" by simp
    finally show ?thesis .
  qed
  have "\<bar>p - 100 * x\<bar> * U \<le> (300 / 2 ^ 53) * 2 ^ 33"
    using eps Ub Upos by (intro mult_mono) auto
  also have "\<dots> < 1 / 2" by simp
  finally have small: "\<bar>(p - 100 * x) * U\<bar> < 1 / 2"
    using Upos by (simp add: abs_mult)
  have pU: "p * U = 100 * I + (p - 100 * x) * U"
    using xU by (simp add: algebra_simps)
  have rlo: "of_int r \<le> p + 1 / 2" and rhi: "p + 1 / 2 < of_int r + 1"
    unfolding r_def Math_round_def by linarith+
  have lo: "(2 * of_int r - 1) * U \<le> 2 * (p * U)"
  proof -
    from rlo have "2 * of_int r - 1 \<le> 2 * p" by simp
    then have "(2 * of_int r - 1) * U \<le> (2 * p) * U"
      using Upos by (intro mult_right_mono) auto
    then show ?thesis by (simp add: algebra_simps)
  qed
  have hi: "2 * (p * U) < (2 * of_int r + 1) * U"
  proof -
    from rhi have "2 * p < 2 * of_int r + 1" by simp
    then have "(2 * p) * U < (2 * of_int r + 1) * U"
      using Upos by (intro mult_strict_right_mono) auto
    then show ?thesis by (simp add: algebra_simps)
  qed
  have A: "(of_int ((2 * r - 1) * int u) :: rat) < of_int (200 * int i) + 1"
    using lo small pU by (simp add: I_def U_def abs_less_iff) 
  have B: "(of_int (200 * int i) :: rat) < of_int ((2 * r + 1) * int u) + 1"
    using hi small pU by (simp add: I_def U_def abs_less_iff)
  from A have "(of_int ((2 * r - 1) * int u) :: rat) < of_int (200 * int i + 1)" by simp
  then have "(2 * r - 1) * int u < 200 * int i + 1" by (simp only: of_int_less_iff)
  then have Ai: "(2 * r - 1) * int u \<le> 200 * int i" by simp
  from B have "(of_int (200 * int i) :: rat) < of_int ((2 * r + 1) * int u + 1)" by simp
  then have "200 * int i < (2 * r + 1) * int u + 1" by (simp only: of_int_less_iff)
  then have Bi: "200 * int i \<le> (2 * r + 1) * int u" by simp
  have Ar: "(2 * of_int r - 1) * U \<le> 200 * I"
  proof -
    have "(of_int ((2 * r - 1) * int u) :: rat) \<le> of_int (200 * int i)"
      using Ai by (simp only: of_int_le_iff)
    then show ?thesis by (simp add: I_def U_def)
  qed
  have Br: "200 * I \<le> (2 * of_int r + 1) * U"
  proof -
    have "(of_int (200 * int i) :: rat) \<le> of_int ((2 * r + 1) * int u)"
      using Bi by (simp only: of_int_le_iff)
    then show ?thesis by (simp add: I_def U_def)
  qed
  have "of_int r - 1 / 2 \<le> 100 * I / U"
    using Ar Upos by (simp add: field_simps)
  moreover have "100 * I / U \<le> of_int r + 1 / 2"
    using Br Upos by (simp add: field_simps)
  ultimately have "\<bar>of_int r - 100 * I / U\<bar> \<le> 1 / 2" by linarith
  then show ?thesis
    by (simp add: r_def p_def q_def x_def I_def U_def)
qed

text \<open>
  A tie: 23 shared skills of 40 are 57.5 percent; the product is the double just below
  57.5 and the code returns 57, where rounding the exact percentage gives 58. Likewise
  29 of 200 give 14.
\<close>

lemma skillMatch_tie:
  "skillMatchPercent [0 ..< 23 :: nat] [0 ..< 40] = 57"
  "Math_round (toDouble (toDouble (23 / 40) * 100)) = 57"
  "Math_round (23 / 40 * 100) = 58"
  "Math_round (toDouble (toDouble (29 / 200) * 100)) = 14"
  by code_simp+

lemma skillMatch_examples:
  "skillMatchPercent [''js'', ''sql'', ''js'', ''go''] [''sql'', ''rust'', ''go'', ''c''] = 40"
  "skillMatchPercent [''js'', ''sql''] [''sql'', ''js'', ''sql''] = 100"
  "skillMatchPercent ([] :: string list) [] = 0"
  "calculateSkillMatchPercent (newSet [''js'', ''sql'', ''js'', ''go''])
     (newSet [''sql'', ''rust'', ''go'', ''c'']) = 40"
  by code_simp+

text \<open>
  C9, as stated: every candidate whose skill set is identical to the requester's has
  skill match 100. When both have no skill the sets are identical and the guard
  \<open>union > 0\<close> gives 0.
\<close>

theorem skillMatch_identical_empty:
  "set ([] :: string list) = set ([] :: string list)
   \<and> skillMatchPercent ([] :: string list) [] = 0
   \<and> skillMatchPercent ([] :: string list) [] \<noteq> 100"
  by (simp add: skillMatchPercent_def)

text \<open>
  C9, amended. For a requester with skill ids \<open>xs\<close> and a candidate with skill ids \<open>ys\<close>,
  arrays of fewer than \<open>2 ^ 32\<close> elements as every JavaScript array is, the skill match is
  an integer nearest to \<open>100 * |S1 \<inter> S2| / |S1 \<union> S2|\<close>: its distance from the exact
  percentage is at most one half (at an exact tie the doubles decide which of the two
  nearest integers it is). It is 0 when both sets are empty, and every candidate whose
  skill set is identical to the requester's and not empty has skill match 100. The
  function of matching.service.js computes the same number.
\<close>

theorem skillMatch_is_rounded_jaccard:
  "(length xs < 2 ^ 32 \<and> length ys < 2 ^ 32 \<and> set xs \<union> set ys \<noteq> {} \<longrightarrow>
       \<bar>of_int (skillMatchPercent xs ys)
          - 100 * of_nat (card (set xs \<inter> set ys)) / of_nat (card (set xs \<union> set ys))\<bar> \<le> (1 / 2 :: rat))
   \<and> (set xs \<union> set ys = {} \<longrightarrow> skillMatchPercent xs ys = 0)
   \<and> (set xs = set ys \<and> set xs \<noteq> {} \<longrightarrow> skillMatchPercent xs ys = 100)
   \<and> calculateSkillMatchPercent (newSet xs) (newSet ys) = skillMatchPercent xs ys"
proof (intro conjI impI)
  assume a: "length xs < 2 ^ 32 \<and> length ys < 2 ^ 32 \<and> set xs \<union> set ys \<noteq> {}"
  then have pos: "card (set xs \<union> set ys) > 0" by (simp add: card_gt_0_iff)
  have le: "card (set xs \<inter> set ys) \<le> card (set xs \<union> set ys)"
    by (intro card_mono) auto
  have "card (set xs \<union> set ys) \<le> card (set xs) + card (set ys)" by (rule card_Un_le)
  also have "\<dots> \<le> length xs + length ys"
    by (intro add_mono card_length)
  also have "\<dots> < 2 ^ 32 + 2 ^ 32" using a by (intro add_strict_mono) auto
  finally have small: "card (set xs \<union> set ys) < 2 ^ 33" by simp
  have sm: "skillMatchPercent xs ys =
              Math_round (toDouble (toDouble (of_nat (card (set xs \<inter> set ys))
                                              / of_nat (card (set xs \<union> set ys))) * 100))"
    using pos by (simp only: skillMatchPercent_jaccard if_True)
  show "\<bar>of_int (skillMatchPercent xs ys)
          - 100 * of_nat (card (set xs \<inter> set ys)) / of_nat (card (set xs \<union> set ys))\<bar> \<le> (1 / 2 :: rat)"
    unfolding sm by (rule percent_near[OF le pos small])
next
  assume "set xs \<union> set ys = {}"
  then show "skillMatchPercent xs ys = 0"
    by (simp add: skillMatchPercent_def)
next
  assume a: "set xs = set ys \<and> set xs \<noteq> {}"
  then have seteq: "set xs = set ys" and ne: "set ys \<noteq> {}" by auto
  from ne have pos: "card (set ys) > 0" by (simp add: card_gt_0_iff)
  from ne have nz: "(of_nat (card (set ys)) :: rat) \<noteq> 0" by simp
  have u: "card (set xs \<union> set ys) = card (set ys)" by (simp add: seteq)
  have i: "card (set xs \<inter> set ys) = card (set ys)" by (simp add: seteq)
  have one: "(of_nat (card (set ys)) :: rat) / of_nat (card (set ys)) = 1"
    using nz by (rule divide_self)
  have "skillMatchPercent xs ys
          = Math_round (toDouble (toDouble (of_nat (card (set ys)) / of_nat (card (set ys))) * 100))"
    unfolding skillMatchPercent_jaccard u i using pos by (simp only: if_True)
  also have "\<dots> = Math_round 100"
    by (simp only: one toDouble_exact mult_1)
  also have "\<dots> = 100" by (simp add: Math_round_def floor_eq_iff)
  finally show "skillMatchPercent xs ys = 100" .
next
  show "calculateSkillMatchPercent (newSet xs) (newSet ys) = skillMatchPercent xs ys"
    by (rule service_agrees)
qed

theorem skillMatch_is_rounded_jaccard_witness:
  "skillMatchPercent [''js'', ''sql'', ''js'', ''go''] [''sql'', ''rust'', ''go'', ''c''] = 40
   \<and> skillMatchPercent [''js'', ''sql''] [''sql'', ''js'', ''sql''] = 100
   \<and> skillMatchPercent ([] :: string list) [] = 0
   \<and> calculateSkillMatchPercent (newSet [''js'', ''sql'', ''js'', ''go''])
         (newSet [''sql'', ''rust'', ''go'', ''c'']) = 40
   \<and> skillMatchPercent [0 ..< 23 :: nat] [0 ..< 40] = 57
   \<and> \<bar>(57 :: rat) - 100 * 23 / 40\<bar> \<le> 1 / 2"
  using skillMatch_is_rounded_jaccard[of "[''js'', ''sql'']" "[''sql'', ''js'', ''sql'']"]
        skillMatch_is_rounded_jaccard[of "[''js'', ''sql'', ''js'', ''go'']" "[''sql'', ''rust'', ''go'', ''c'']"]
        skillMatch_is_rounded_jaccard[of "[] :: string list" "[]"]
        skillMatch_is_rounded_jaccard[of "[0 ..< 23 :: nat]" "[0 ..< 40]"]
  by (simp only: skillMatch_examples skillMatch_tie simp_thms)

end
